theory Spec2Isabelle
  imports Main "HOL-Library.Sublist"
begin

section \<open>Python values and the primitive operations the handlers use\<close>

text \<open>
  The program (\<^verbatim>\<open>server.py\<close>) navigates the value returned by \<^verbatim>\<open>response.json()\<close>
  with \<^verbatim>\<open>in\<close>, \<^verbatim>\<open>[]\<close>, \<^verbatim>\<open>.get\<close>, \<^verbatim>\<open>or\<close>, iteration, \<^verbatim>\<open>str.join\<close> and f-strings, none of
  which checks a type first.  The model therefore keeps the whole dynamic value: a
  \<open>json\<close> is what the JSON decoder of Python produces (\<^verbatim>\<open>None\<close>, \<^verbatim>\<open>bool\<close>, \<^verbatim>\<open>int\<close>,
  \<^verbatim>\<open>str\<close>, \<^verbatim>\<open>list\<close>, \<^verbatim>\<open>dict\<close>), and every primitive says what CPython does on each of
  them, the raised exception included.

  Limits of the model: a \<^verbatim>\<open>str\<close> is a list of code points below 256 (a \<open>char\<close> is one
  code point, so \<open>CHR 0xF3\<close> is the letter o with an acute accent); JSON numbers are
  integers (\<^verbatim>\<open>float\<close> is left out); a \<^verbatim>\<open>dict\<close> is the list of its items in insertion
  order, looked up from the front (the keys of a \<^verbatim>\<open>dict\<close> are distinct, so no second
  binding of a key is ever meant).  The texts of the exceptions are those of CPython
  3.11 to 3.13; no property below depends on them but the \<^verbatim>\<open>IndexError\<close> of an empty list.
\<close>

datatype json =
    JNull
  | JBool bool
  | JInt int
  | JStr string
  | JList "json list"
  | JObj "(string \<times> json) list"

text \<open>
  The exceptions that the navigation of a value can raise, and \<open>ToolError\<close>
  (\<^verbatim>\<open>fastmcp.exceptions.ToolError\<close>, a subclass of \<^verbatim>\<open>Exception\<close>), which the program
  raises itself.  \<open>ValueError\<close> is the failure of the JSON decoder.  \<open>KeyError\<close> carries
  the missing key; every other constructor carries the text of \<^verbatim>\<open>str(e)\<close>.
\<close>

datatype exn =
    ToolError string
  | ValueError string
  | KeyError json
  | IndexError string
  | TypeError string
  | AttributeError string

type_synonym 'a result = "exn + 'a"

text \<open>Sequencing: the first exception raised ends the computation.\<close>

fun bind :: "'x + 'a \<Rightarrow> ('a \<Rightarrow> 'x + 'b) \<Rightarrow> 'x + 'b" where
  "bind (Inl e) f = Inl e"
| "bind (Inr v) f = f v"

subsection \<open>Text\<close>

definition sq :: char where
  "sq = CHR 0x27"

definition dq :: char where
  "dq = CHR 0x22"

definition backslash :: char where
  "backslash = CHR 0x5C"

definition newline :: char where
  "newline = CHR 0x0A"

definition o_acute :: char where
  "o_acute = CHR 0xF3"

definition quoted :: "string \<Rightarrow> string" where
  "quoted s = sq # s @ [sq]"

text \<open>\<^verbatim>\<open>sep.join(items)\<close> on a list of strings.\<close>

fun join :: "string \<Rightarrow> string list \<Rightarrow> string" where
  "join sep [] = []"
| "join sep [x] = x"
| "join sep (x # y # ys) = x @ sep @ join sep (y # ys)"

text \<open>\<^verbatim>\<open>text.split("\n")\<close>: the lines of a text, used to count them.\<close>

fun split_lines :: "string \<Rightarrow> string list" where
  "split_lines [] = [[]]"
| "split_lines (c # cs) =
     (if c = newline then [] # split_lines cs
      else (case split_lines cs of [] \<Rightarrow> [[c]] | l # ls \<Rightarrow> (c # l) # ls))"

text \<open>\<^verbatim>\<open>needle in haystack\<close> on two strings.\<close>

fun str_contains :: "string \<Rightarrow> string \<Rightarrow> bool" where
  "str_contains needle [] = (needle = [])"
| "str_contains needle (c # cs) = (prefix needle (c # cs) \<or> str_contains needle cs)"

text \<open>\<^verbatim>\<open>str(n)\<close> for an integer: decimal digits, with a sign.\<close>

definition digit_char :: "nat \<Rightarrow> char" where
  "digit_char d = ''0123456789'' ! (d mod 10)"

fun str_nat :: "nat \<Rightarrow> string" where
  "str_nat n = (if n < 10 then [digit_char n] else str_nat (n div 10) @ [digit_char (n mod 10)])"

declare str_nat.simps [simp del]

definition str_int :: "int \<Rightarrow> string" where
  "str_int i = (if i < 0 then CHR ''-'' # str_nat (nat (- i)) else str_nat (nat i))"

text \<open>
  \<^verbatim>\<open>repr(s)\<close> for a string, as \<^verbatim>\<open>unicode_repr\<close> of CPython does it: single quotes, unless
  the string has a single quote and no double quote; the quote and the backslash
  escaped; tab, line feed and carriage return by letter; the other characters that are
  not printable (controls, and in Latin-1 the range 0x80 to 0xA0 and 0xAD) as
  \<^verbatim>\<open>\xhh\<close>.
\<close>

definition hex_char :: "nat \<Rightarrow> char" where
  "hex_char d = ''0123456789abcdef'' ! (d mod 16)"

definition repr_quote :: "string \<Rightarrow> char" where
  "repr_quote s = (if sq \<in> set s \<and> dq \<notin> set s then dq else sq)"

definition printable :: "char \<Rightarrow> bool" where
  "printable c =
     (let n = (of_char c :: nat)
      in 32 \<le> n \<and> n \<noteq> 127 \<and> \<not> (128 \<le> n \<and> n \<le> 160) \<and> n \<noteq> 173)"

definition repr_char :: "char \<Rightarrow> char \<Rightarrow> string" where
  "repr_char q c =
     (if c = q \<or> c = backslash then [backslash, c]
      else if c = CHR 0x09 then [backslash, CHR ''t'']
      else if c = CHR 0x0A then [backslash, CHR ''n'']
      else if c = CHR 0x0D then [backslash, CHR ''r'']
      else if printable c then [c]
      else [backslash, CHR ''x'', hex_char (of_char c div 16), hex_char (of_char c mod 16)])"

definition repr_str :: "string \<Rightarrow> string" where
  "repr_str s = (let q = repr_quote s in q # concat (map (repr_char q) s) @ [q])"

text \<open>\<^verbatim>\<open>repr(v)\<close> and \<^verbatim>\<open>str(v)\<close>; an f-string field \<^verbatim>\<open>{v}\<close> is \<^verbatim>\<open>str(v)\<close>.\<close>

fun py_repr :: "json \<Rightarrow> string" where
  "py_repr JNull = ''None''"
| "py_repr (JBool b) = (if b then ''True'' else ''False'')"
| "py_repr (JInt i) = str_int i"
| "py_repr (JStr s) = repr_str s"
| "py_repr (JList xs) = ''['' @ join '', '' (map py_repr xs) @ '']''"
| "py_repr (JObj kvs) =
     ''{'' @ join '', '' (map (\<lambda>(k, v). repr_str k @ '': '' @ py_repr v) kvs) @ ''}''"

definition py_str :: "json \<Rightarrow> string" where
  "py_str v = (case v of JStr s \<Rightarrow> s | _ \<Rightarrow> py_repr v)"

text \<open>\<^verbatim>\<open>type(v).__name__\<close>, which the messages of the exceptions quote.\<close>

fun type_name :: "json \<Rightarrow> string" where
  "type_name JNull = ''NoneType''"
| "type_name (JBool _) = ''bool''"
| "type_name (JInt _) = ''int''"
| "type_name (JStr _) = ''str''"
| "type_name (JList _) = ''list''"
| "type_name (JObj _) = ''dict''"

text \<open>\<^verbatim>\<open>str(e)\<close> for a caught exception; for a \<^verbatim>\<open>KeyError\<close> it is the \<^verbatim>\<open>repr\<close> of the key.\<close>

fun exn_str :: "exn \<Rightarrow> string" where
  "exn_str (ToolError m) = m"
| "exn_str (ValueError m) = m"
| "exn_str (KeyError k) = py_repr k"
| "exn_str (IndexError m) = m"
| "exn_str (TypeError m) = m"
| "exn_str (AttributeError m) = m"

subsection \<open>Truth value, \<^verbatim>\<open>or\<close>, membership, subscript, \<^verbatim>\<open>get\<close>, iteration\<close>

fun truthy :: "json \<Rightarrow> bool" where
  "truthy JNull = False"
| "truthy (JBool b) = b"
| "truthy (JInt i) = (i \<noteq> 0)"
| "truthy (JStr s) = (s \<noteq> [])"
| "truthy (JList xs) = (xs \<noteq> [])"
| "truthy (JObj kvs) = (kvs \<noteq> [])"

text \<open>\<^verbatim>\<open>a or b\<close> when both are already values: the first if it is true, else the second.\<close>

definition py_or :: "json \<Rightarrow> json \<Rightarrow> json" where
  "py_or a b = (if truthy a then a else b)"

text \<open>\<^verbatim>\<open>key in v\<close> for a string \<^verbatim>\<open>key\<close>.\<close>

fun py_in :: "string \<Rightarrow> json \<Rightarrow> bool result" where
  "py_in key (JObj kvs) = Inr (key \<in> set (map fst kvs))"
| "py_in key (JList xs) = Inr (JStr key \<in> set xs)"
| "py_in key (JStr s) = Inr (str_contains key s)"
| "py_in key v = Inl (TypeError (''argument of type '' @ quoted (type_name v) @ '' is not iterable''))"

text \<open>\<^verbatim>\<open>v[key]\<close> for a string \<^verbatim>\<open>key\<close>.\<close>

fun getitem :: "json \<Rightarrow> string \<Rightarrow> json result" where
  "getitem (JObj kvs) key =
     (case map_of kvs key of None \<Rightarrow> Inl (KeyError (JStr key)) | Some x \<Rightarrow> Inr x)"
| "getitem (JList xs) key = Inl (TypeError ''list indices must be integers or slices, not str'')"
| "getitem (JStr s) key =
     Inl (TypeError (''string indices must be integers, not '' @ quoted ''str''))"
| "getitem v key = Inl (TypeError (quoted (type_name v) @ '' object is not subscriptable''))"

text \<open>\<^verbatim>\<open>v[0]\<close>.  The keys of a decoded JSON object are strings, so \<^verbatim>\<open>0\<close> is never one.\<close>

fun getitem0 :: "json \<Rightarrow> json result" where
  "getitem0 (JList []) = Inl (IndexError ''list index out of range'')"
| "getitem0 (JList (x # xs)) = Inr x"
| "getitem0 (JStr []) = Inl (IndexError ''string index out of range'')"
| "getitem0 (JStr (c # cs)) = Inr (JStr [c])"
| "getitem0 (JObj kvs) = Inl (KeyError (JInt 0))"
| "getitem0 v = Inl (TypeError (quoted (type_name v) @ '' object is not subscriptable''))"

text \<open>\<^verbatim>\<open>v.get(key, default)\<close>; \<^verbatim>\<open>v.get(key)\<close> is \<open>get v key JNull\<close>.  Only a dict has it.\<close>

fun get :: "json \<Rightarrow> string \<Rightarrow> json \<Rightarrow> json result" where
  "get (JObj kvs) key dflt =
     Inr (case map_of kvs key of None \<Rightarrow> dflt | Some x \<Rightarrow> x)"
| "get v key dflt =
     Inl (AttributeError (quoted (type_name v) @ '' object has no attribute '' @ quoted ''get''))"

text \<open>The items \<^verbatim>\<open>for x in v\<close> goes through.\<close>

fun iter :: "json \<Rightarrow> json list result" where
  "iter (JList xs) = Inr xs"
| "iter (JStr s) = Inr (map (\<lambda>c. JStr [c]) s)"
| "iter (JObj kvs) = Inr (map (\<lambda>kv. JStr (fst kv)) kvs)"
| "iter v = Inl (TypeError (quoted (type_name v) @ '' object is not iterable''))"

text \<open>
  \<^verbatim>\<open>sep.join(items)\<close> on a list of values: the first item that is not a string raises.
\<close>

fun join_items :: "nat \<Rightarrow> json list \<Rightarrow> string list result" where
  "join_items i [] = Inr []"
| "join_items i (JStr s # xs) = bind (join_items (Suc i) xs) (\<lambda>ss. Inr (s # ss))"
| "join_items i (x # xs) =
     Inl (TypeError (''sequence item '' @ str_nat i @ '': expected str instance, ''
                     @ type_name x @ '' found''))"

definition py_join :: "string \<Rightarrow> json list \<Rightarrow> string result" where
  "py_join sep items = bind (join_items 0 items) (\<lambda>ss. Inr (join sep ss))"

section \<open>The client: \<^verbatim>\<open>OpenCTIClient.execute_query\<close>\<close>

text \<open>
  The three query texts of \<^verbatim>\<open>queries.py\<close> are constants that the program only passes
  on; they are named, not spelled out.
\<close>

datatype query = SEARCH_QUERY | GET_OBSERVABLE_QUERY | GET_ENTITY_QUERY

text \<open>The JSON payload of the POST: \<^verbatim>\<open>{"query": query, "variables": variables or {}}\<close>.\<close>

record payload =
  query :: query
  variables :: "(string \<times> json) list"

text \<open>
  What the program reads of an \<^verbatim>\<open>httpx.Response\<close>: the status code, and the result of
  \<^verbatim>\<open>response.json()\<close>, which is the decoded value or the message of the decoder's
  \<^verbatim>\<open>ValueError\<close>.
\<close>

record response =
  status_code :: nat
  body :: "string + json"

text \<open>
  The remote service is a parameter: for each payload, either the request fails with an
  \<^verbatim>\<open>httpx.RequestError\<close> (connection refused, timeout, ...) of the given \<^verbatim>\<open>str(e)\<close>, or a
  response arrives.  The URL and the headers are fixed at start-up and do not reach any
  result, so they are not part of the model; neither is logging.
\<close>

datatype outcome = Failed string | Responded response

type_synonym remote = "payload \<Rightarrow> outcome"

text \<open>
  What can be raised inside the \<^verbatim>\<open>try\<close> block, by the \<^verbatim>\<open>except\<close> clause that catches it:
  \<^verbatim>\<open>httpx.HTTPStatusError\<close> (with the status code of its response),
  \<^verbatim>\<open>httpx.RequestError\<close>, or any other \<^verbatim>\<open>Exception\<close>.
\<close>

datatype raised = HTTPStatusError nat | RequestError string | Other exn

definition other :: "'a result \<Rightarrow> raised + 'a" where
  "other m = (case m of Inl e \<Rightarrow> Inl (Other e) | Inr v \<Rightarrow> Inr v)"

definition make_payload :: "query \<Rightarrow> (string \<times> json) list option \<Rightarrow> payload" where
  "make_payload q vars = \<lparr>query = q, variables = (case vars of None \<Rightarrow> [] | Some vs \<Rightarrow> vs)\<rparr>"

definition post :: "remote \<Rightarrow> payload \<Rightarrow> raised + response" where
  "post remote p = (case remote p of Failed m \<Rightarrow> Inl (RequestError m) | Responded r \<Rightarrow> Inr r)"

text \<open>
  \<^verbatim>\<open>response.raise_for_status()\<close> is a method of the httpx library: it returns when
  \<^verbatim>\<open>is_success\<close> holds, that is for a status from 200 to 299, and raises
  \<^verbatim>\<open>HTTPStatusError\<close> for every other status (the client does not follow redirects, so
  a 3xx status arrives here as well).
\<close>

definition raise_for_status :: "response \<Rightarrow> raised + unit" where
  "raise_for_status r =
     (if 200 \<le> status_code r \<and> status_code r \<le> 299 then Inr ()
      else Inl (HTTPStatusError (status_code r)))"

definition response_json :: "response \<Rightarrow> raised + json" where
  "response_json r = (case body r of Inl m \<Rightarrow> Inl (Other (ValueError m)) | Inr v \<Rightarrow> Inr v)"

text \<open>The body of the \<^verbatim>\<open>try\<close> block (lines 46 to 63).\<close>

definition try_block :: "remote \<Rightarrow> query \<Rightarrow> (string \<times> json) list option \<Rightarrow> raised + json" where
  "try_block remote q vars =
     bind (post remote (make_payload q vars)) (\<lambda>response.
     bind (raise_for_status response) (\<lambda>_.
     bind (response_json response) (\<lambda>data.
     bind (other (py_in ''errors'' data)) (\<lambda>has_errors.
       if has_errors then
         bind (other (getitem data ''errors'')) (\<lambda>errors.
         bind (other (getitem0 errors)) (\<lambda>first.
         bind (other (getitem first ''message'')) (\<lambda>message.
           Inl (Other (ToolError (''Error GraphQL: '' @ py_str message))))))
       else other (get data ''data'' (JObj []))))))"

text \<open>
  The three \<^verbatim>\<open>except\<close> clauses (lines 65 to 73), each raising a \<^verbatim>\<open>ToolError\<close>.  The
  \<^verbatim>\<open>ToolError\<close> of line 61 is raised inside the \<^verbatim>\<open>try\<close> and is an \<^verbatim>\<open>Exception\<close>, so the last
  clause catches it too.
\<close>

fun except :: "raised \<Rightarrow> exn" where
  "except (HTTPStatusError code) =
     ToolError (''Error de conexi'' @ [o_acute] @ ''n con OpenCTI: '' @ str_nat code)"
| "except (RequestError m) = ToolError (''No se pudo conectar al servidor OpenCTI: '' @ m)"
| "except (Other e) = ToolError (''Error interno: '' @ exn_str e)"

definition execute_query :: "remote \<Rightarrow> query \<Rightarrow> (string \<times> json) list option \<Rightarrow> json result" where
  "execute_query remote q vars =
     (case try_block remote q vars of Inl r \<Rightarrow> Inl (except r) | Inr data \<Rightarrow> Inr data)"

section \<open>The tools\<close>

subsection \<open>\<^verbatim>\<open>search_knowledge_base\<close>\<close>

text \<open>The body of the loop (lines 98 to 102): the line of one edge.\<close>

definition search_line :: "json \<Rightarrow> string result" where
  "search_line edge =
     bind (getitem edge ''node'') (\<lambda>node.
     bind (get node ''name'' JNull) (\<lambda>n1.
     bind (if truthy n1 then Inr n1
           else bind (get node ''observable_value'' JNull)
                  (\<lambda>n2. Inr (py_or n2 (JStr ''Desconocido'')))) (\<lambda>name.
     bind (get node ''description'' JNull) (\<lambda>d1.
     bind (if truthy d1 then Inr d1
           else bind (get node ''x_opencti_description'' JNull)
                  (\<lambda>d2. Inr (py_or d2 (JStr (''Sin descripci'' @ [o_acute] @ ''n''))))) (\<lambda>desc.
     bind (getitem node ''entity_type'') (\<lambda>entity_type.
     bind (getitem node ''id'') (\<lambda>ident.
       Inr (''- ['' @ py_str entity_type @ ''] '' @ py_str name @ '' (ID: '' @ py_str ident
            @ ''): '' @ py_str desc))))))))"

text \<open>The loop (lines 96 to 102): the first edge that raises ends it.\<close>

fun search_results :: "json list \<Rightarrow> string list result" where
  "search_results [] = Inr []"
| "search_results (edge # edges) =
     bind (search_line edge) (\<lambda>l. bind (search_results edges) (\<lambda>ls. Inr (l # ls)))"

text \<open>Lines 92 to 104: what the tool makes of the mapping the client returned.\<close>

definition search_text :: "json \<Rightarrow> string result" where
  "search_text data =
     bind (get data ''globalSearch'' (JObj [])) (\<lambda>found.
     bind (get found ''edges'' (JList [])) (\<lambda>edges.
       if \<not> truthy edges then Inr ''No se encontraron resultados.''
       else bind (iter edges) (\<lambda>es.
            bind (search_results es) (\<lambda>results. Inr (join [newline] results)))))"

definition search_knowledge_base :: "remote \<Rightarrow> string \<Rightarrow> int \<Rightarrow> string result" where
  "search_knowledge_base remote keyword limit =
     bind (execute_query remote SEARCH_QUERY
             (Some [(''search'', JStr keyword), (''first'', JInt limit)])) search_text"

subsection \<open>\<^verbatim>\<open>get_observable_details\<close>\<close>

text \<open>The two comprehensions of lines 124 and 125, over the items of the edge lists.\<close>

fun indicator_names :: "json list \<Rightarrow> json list result" where
  "indicator_names [] = Inr []"
| "indicator_names (i # rest) =
     bind (getitem i ''node'') (\<lambda>node.
     bind (getitem node ''name'') (\<lambda>name.
     bind (indicator_names rest) (\<lambda>names. Inr (name # names))))"

fun report_texts :: "json list \<Rightarrow> string list result" where
  "report_texts [] = Inr []"
| "report_texts (r # rest) =
     bind (getitem r ''node'') (\<lambda>node.
     bind (getitem node ''name'') (\<lambda>name.
     bind (getitem r ''node'') (\<lambda>node'.
     bind (getitem node' ''published'') (\<lambda>published.
     bind (report_texts rest) (\<lambda>texts.
       Inr ((py_str name @ '' ('' @ py_str published @ '')'') # texts))))))"

text \<open>Lines 124 to 134: the list \<^verbatim>\<open>output\<close> for the node of the first edge.\<close>

definition observable_output :: "json \<Rightarrow> string list result" where
  "observable_output node =
     bind (get node ''indicators'' (JObj [])) (\<lambda>ind.
     bind (get ind ''edges'' (JList [])) (\<lambda>ind_edges.
     bind (iter ind_edges) (\<lambda>ind_items.
     bind (indicator_names ind_items) (\<lambda>indicators.
     bind (get node ''reports'' (JObj [])) (\<lambda>rep.
     bind (get rep ''edges'' (JList [])) (\<lambda>rep_edges.
     bind (iter rep_edges) (\<lambda>rep_items.
     bind (report_texts rep_items) (\<lambda>reports.
     bind (getitem node ''entity_type'') (\<lambda>entity_type.
     bind (getitem node ''observable_value'') (\<lambda>observable_value.
     bind (get node ''x_opencti_score'' JNull) (\<lambda>score.
     bind (get node ''x_opencti_description'' JNull) (\<lambda>description.
     bind (if indicators \<noteq> [] then py_join '', '' indicators else Inr ''Ninguno'')
       (\<lambda>indicators_text.
       Inr [''Tipo: '' @ py_str entity_type,
            ''Valor: '' @ py_str observable_value,
            ''Score: '' @ py_str (py_or score (JStr ''N/A'')),
            ''Descripci'' @ [o_acute] @ ''n: '' @ py_str (py_or description (JStr ''N/A'')),
            ''Indicadores asociados: '' @ indicators_text,
            ''Mencionado en reportes: ''
              @ (if reports \<noteq> [] then join '', '' reports else ''Ninguno'')])))))))))))))"

text \<open>Lines 117 to 136.\<close>

definition observable_text :: "string \<Rightarrow> json \<Rightarrow> string result" where
  "observable_text val data =
     bind (get data ''stixCyberObservables'' (JObj [])) (\<lambda>found.
     bind (get found ''edges'' (JList [])) (\<lambda>edges.
       if \<not> truthy edges
       then Inr (''No se encontr'' @ [o_acute] @ '' informaci'' @ [o_acute]
                 @ ''n para el observable: '' @ val)
       else bind (getitem0 edges) (\<lambda>first.
            bind (getitem first ''node'') (\<lambda>node.
            bind (observable_output node) (\<lambda>output. Inr (join [newline] output))))))"

definition get_observable_details :: "remote \<Rightarrow> string \<Rightarrow> string result" where
  "get_observable_details remote val =
     bind (execute_query remote GET_OBSERVABLE_QUERY (Some [(''value'', JStr val)]))
       (observable_text val)"

subsection \<open>\<^verbatim>\<open>get_threat_entity\<close>\<close>

text \<open>Lines 155 to 167: the list \<^verbatim>\<open>output\<close> for the node of the first edge.\<close>

definition entity_output :: "json \<Rightarrow> string list result" where
  "entity_output node =
     bind (getitem node ''name'') (\<lambda>name.
     bind (getitem node ''entity_type'') (\<lambda>entity_type.
     bind (get node ''description'' JNull) (\<lambda>description.
     bind (get node ''created'' JNull) (\<lambda>created.
     bind (if entity_type = JStr ''Threat-Actor''
           then bind (get node ''threat_actor_types'' (JList [])) (\<lambda>types.
                bind (get node ''goals'' (JList [])) (\<lambda>goals.
                  Inr [''Tipos: '' @ py_str types, ''Objetivos: '' @ py_str goals]))
           else Inr []) (\<lambda>actor_lines.
     bind (if entity_type = JStr ''Malware''
           then bind (get node ''is_family'' (JBool False)) (\<lambda>is_family.
                  Inr [''Familia de malware: '' @ py_str is_family])
           else Inr []) (\<lambda>malware_lines.
       Inr ([''Nombre: '' @ py_str name,
             ''Tipo: '' @ py_str entity_type,
             ''Descripci'' @ [o_acute] @ ''n: '' @ py_str (py_or description (JStr ''N/A'')),
             ''Creado: '' @ py_str (py_or created (JStr ''N/A''))]
            @ actor_lines @ malware_lines)))))))"

text \<open>Lines 148 to 169.\<close>

definition entity_text :: "string \<Rightarrow> json \<Rightarrow> string result" where
  "entity_text name data =
     bind (get data ''stixDomainObjects'' (JObj [])) (\<lambda>found.
     bind (get found ''edges'' (JList [])) (\<lambda>edges.
       if \<not> truthy edges
       then Inr (''No se encontr'' @ [o_acute] @ '' la entidad: '' @ name)
       else bind (getitem0 edges) (\<lambda>first.
            bind (getitem first ''node'') (\<lambda>node.
            bind (entity_output node) (\<lambda>output. Inr (join [newline] output))))))"

definition get_threat_entity :: "remote \<Rightarrow> string \<Rightarrow> string result" where
  "get_threat_entity remote name =
     bind (execute_query remote GET_ENTITY_QUERY (Some [(''name'', JStr name)]))
       (entity_text name)"

section \<open>Vocabulary of the properties\<close>

text \<open>The value under a key of a dict; nothing for a missing key or a value that is no dict.\<close>

definition field :: "json \<Rightarrow> string \<Rightarrow> json option" where
  "field v key = (case v of JObj kvs \<Rightarrow> map_of kvs key | _ \<Rightarrow> None)"

text \<open>
  The remote answers the query with a status from 200 to 299 and a JSON object that has
  no key \<^verbatim>\<open>errors\<close> and holds \<open>data\<close> under the key \<^verbatim>\<open>data\<close>.
\<close>

definition answers :: "remote \<Rightarrow> query \<Rightarrow> (string \<times> json) list \<Rightarrow> json \<Rightarrow> bool" where
  "answers remote q vars data =
     (case remote (make_payload q (Some vars)) of
        Failed _ \<Rightarrow> False
      | Responded r \<Rightarrow>
          200 \<le> status_code r \<and> status_code r \<le> 299 \<and>
          (case body r of
             Inr (JObj kvs) \<Rightarrow> ''errors'' \<notin> set (map fst kvs) \<and> map_of kvs ''data'' = Some data
           | _ \<Rightarrow> False))"

text \<open>The variables each tool sends.\<close>

definition search_vars :: "string \<Rightarrow> int \<Rightarrow> (string \<times> json) list" where
  "search_vars keyword limit = [(''search'', JStr keyword), (''first'', JInt limit)]"

definition observable_vars :: "string \<Rightarrow> (string \<times> json) list" where
  "observable_vars val = [(''value'', JStr val)]"

definition entity_vars :: "string \<Rightarrow> (string \<times> json) list" where
  "entity_vars name = [(''name'', JStr name)]"

text \<open>The value under a key of the node of an edge.\<close>

definition node_field :: "json \<Rightarrow> string \<Rightarrow> json option" where
  "node_field edge key = (case field edge ''node'' of None \<Rightarrow> None | Some node \<Rightarrow> field node key)"

text \<open>The node of the first edge of the connection that \<open>data\<close> holds under \<open>key\<close>.\<close>

definition first_record :: "json \<Rightarrow> string \<Rightarrow> json option" where
  "first_record data key =
     (case field data key of
        None \<Rightarrow> None
      | Some found \<Rightarrow>
          (case field found ''edges'' of
             Some (JList (edge # rest)) \<Rightarrow> field edge ''node''
           | _ \<Rightarrow> None))"

text \<open>
  The edges of the connection that a node holds under \<open>key\<close>: none when the key or the
  connection's \<^verbatim>\<open>edges\<close> is absent; undefined when either is present with a value of
  another type than a dict and a list.
\<close>

definition connection :: "json \<Rightarrow> string \<Rightarrow> json list option" where
  "connection node key =
     (case field node key of
        None \<Rightarrow> Some []
      | Some (JObj kvs) \<Rightarrow>
          (case map_of kvs ''edges'' of
             None \<Rightarrow> Some []
           | Some (JList es) \<Rightarrow> Some es
           | Some _ \<Rightarrow> None)
      | Some _ \<Rightarrow> None)"

text \<open>
  The fields the tools read by subscript.  An edge of a search has a node with
  \<^verbatim>\<open>entity_type\<close> and \<^verbatim>\<open>id\<close>; an indicator edge has a node whose \<^verbatim>\<open>name\<close> is a string; a
  report edge has a node with \<^verbatim>\<open>name\<close> and \<^verbatim>\<open>published\<close>.
\<close>

definition search_edge :: "json \<Rightarrow> bool" where
  "search_edge edge = (node_field edge ''entity_type'' \<noteq> None \<and> node_field edge ''id'' \<noteq> None)"

definition indicator_edge :: "json \<Rightarrow> bool" where
  "indicator_edge edge = (case node_field edge ''name'' of Some (JStr s) \<Rightarrow> True | _ \<Rightarrow> False)"

definition report_edge :: "json \<Rightarrow> bool" where
  "report_edge edge = (node_field edge ''name'' \<noteq> None \<and> node_field edge ''published'' \<noteq> None)"

text \<open>The name of an indicator edge, and the text \<^verbatim>\<open>name (published)\<close> of a report edge.\<close>

definition indicator_label :: "json \<Rightarrow> string" where
  "indicator_label edge = (case node_field edge ''name'' of Some (JStr s) \<Rightarrow> s | _ \<Rightarrow> [])"

definition report_label :: "json \<Rightarrow> string" where
  "report_label edge =
     (case node_field edge ''name'' of
        None \<Rightarrow> []
      | Some name \<Rightarrow>
          (case node_field edge ''published'' of
             None \<Rightarrow> []
           | Some published \<Rightarrow> py_str name @ '' ('' @ py_str published @ '')''))"

text \<open>
  An observable record that has the fields read by subscript: \<^verbatim>\<open>entity_type\<close> and
  \<^verbatim>\<open>observable_value\<close>, and in its two connections only edges as above.
\<close>

definition observable_record :: "json \<Rightarrow> bool" where
  "observable_record node =
     (field node ''entity_type'' \<noteq> None \<and> field node ''observable_value'' \<noteq> None \<and>
      (case connection node ''indicators'' of None \<Rightarrow> False | Some es \<Rightarrow> list_all indicator_edge es) \<and>
      (case connection node ''reports'' of None \<Rightarrow> False | Some es \<Rightarrow> list_all report_edge es))"

text \<open>An optional field with the default that \<^verbatim>\<open>get\<close> gives it when it is absent.\<close>

definition field_or :: "json \<Rightarrow> string \<Rightarrow> json \<Rightarrow> json" where
  "field_or node key dflt = (case field node key of None \<Rightarrow> dflt | Some x \<Rightarrow> x)"

text \<open>
  A value whose text holds no line feed: every value but a string with a line feed in
  it (\<^verbatim>\<open>repr\<close> escapes the line feeds of the strings inside a list or a dict).  A record
  or an edge is plain when the fields of its node are.
\<close>

fun plain :: "json \<Rightarrow> bool" where
  "plain (JStr s) = (newline \<notin> set s)"
| "plain v = True"

definition plain_record :: "json \<Rightarrow> bool" where
  "plain_record node = (case node of JObj kvs \<Rightarrow> list_all (\<lambda>kv. plain (snd kv)) kvs | _ \<Rightarrow> True)"

definition plain_edge :: "json \<Rightarrow> bool" where
  "plain_edge edge = (case field edge ''node'' of None \<Rightarrow> True | Some node \<Rightarrow> plain_record node)"


text \<open>A remote that answers every query with status 200 and \<open>data\<close>, for the examples.\<close>

definition replying :: "json \<Rightarrow> remote" where
  "replying data = (\<lambda>p. Responded \<lparr>status_code = 200, body = Inr (JObj [(''data'', data)])\<rparr>)"

section \<open>Basic facts\<close>

lemma other_Inl [simp]: "other (Inl e) = Inl (Other e)"
  by (simp add: other_def)

lemma other_Inr [simp]: "other (Inr v) = Inr v"
  by (simp add: other_def)

lemma field_JObj [simp]: "field (JObj kvs) key = map_of kvs key"
  by (simp add: field_def)

lemma field_is_dict: "field v key = Some x \<Longrightarrow> \<exists>kvs. v = JObj kvs \<and> map_of kvs key = Some x"
  by (cases v) (simp_all add: field_def)

lemma field_get: "field v key = Some x \<Longrightarrow> get v key d = Inr x"
  by (auto dest: field_is_dict)

lemma field_getitem: "field v key = Some x \<Longrightarrow> getitem v key = Inr x"
  by (auto dest: field_is_dict)

lemma field_py_in: "field v key = Some x \<Longrightarrow> py_in key v = Inr True"
  by (force dest!: field_is_dict map_of_SomeD simp: image_iff)

section \<open>Properties of the client\<close>

lemma try_block_status:
  assumes "remote (make_payload q vars) = Responded r"
  shows "try_block remote q vars =
           (if 200 \<le> status_code r \<and> status_code r \<le> 299
            then bind (response_json r) (\<lambda>data.
                 bind (other (py_in ''errors'' data)) (\<lambda>has_errors.
                   if has_errors then
                     bind (other (getitem data ''errors'')) (\<lambda>errors.
                     bind (other (getitem0 errors)) (\<lambda>first.
                     bind (other (getitem first ''message'')) (\<lambda>message.
                       Inl (Other (ToolError (''Error GraphQL: '' @ py_str message))))))
                   else other (get data ''data'' (JObj []))))
            else Inl (HTTPStatusError (status_code r)))"
  using assms by (simp add: try_block_def post_def raise_for_status_def)

lemma answers_execute_query:
  assumes "answers remote q vars data"
  shows "execute_query remote q (Some vars) = Inr data"
proof -
  from assms obtain r kvs where r: "remote (make_payload q (Some vars)) = Responded r"
    and st: "200 \<le> status_code r" "status_code r \<le> 299"
    and b: "body r = Inr (JObj kvs)"
    and ne: "''errors'' \<notin> set (map fst kvs)" and d: "map_of kvs ''data'' = Some data"
    by (auto simp: answers_def split: outcome.splits sum.splits json.splits)
  show ?thesis
    using st b ne d
    by (simp add: execute_query_def try_block_status [of remote q "Some vars" r, OF r]
          response_json_def)
qed

lemma execute_query_status:
  assumes "remote (make_payload q vars) = Responded r"
    and "status_code r < 200 \<or> 299 < status_code r"
  shows "execute_query remote q vars
           = Inl (ToolError (''Error de conexi'' @ [o_acute] @ ''n con OpenCTI: ''
                             @ str_nat (status_code r)))"
  using assms(2)
  by (auto simp add: execute_query_def try_block_status [of remote q vars r, OF assms(1)])

text \<open>
  C1.  When the response has a status from 200 to 299 (200 included) and its JSON body
  is an object whose \<^verbatim>\<open>errors\<close> is a non-empty list, \<open>execute_query\<close> does not return
  the data: it raises a \<open>ToolError\<close>, and when the first element of the list has a
  \<^verbatim>\<open>message\<close>, the message of the \<open>ToolError\<close> ends with the text of that \<^verbatim>\<open>message\<close>.
  (The \<open>ToolError\<close> of line 61 passes through the last \<^verbatim>\<open>except\<close> clause, hence the two
  prefixes.)
\<close>

theorem execute_query_graphql_errors:
  assumes "remote (make_payload q vars) = Responded r"
    and "200 \<le> status_code r" and "status_code r \<le> 299"
    and "body r = Inr data"
    and "field data ''errors'' = Some (JList (e # es))"
  shows "\<exists>msg. execute_query remote q vars = Inl (ToolError msg)
           \<and> (\<forall>m. field e ''message'' = Some m
                 \<longrightarrow> msg = ''Error interno: Error GraphQL: '' @ py_str m)"
proof -
  have raised: "execute_query remote q vars =
          (case getitem e ''message'' of
             Inl x \<Rightarrow> Inl (ToolError (''Error interno: '' @ exn_str x))
           | Inr m \<Rightarrow> Inl (ToolError (''Error interno: Error GraphQL: '' @ py_str m)))"
    using assms(2-4) field_py_in [OF assms(5)] field_getitem [OF assms(5)]
    by (simp add: execute_query_def try_block_status [of remote q vars r, OF assms(1)]
          response_json_def split: sum.splits)
  show ?thesis
  proof (cases "getitem e ''message''")
    case (Inl x)
    then have "field e ''message'' = None"
      by (cases e) (auto simp: field_def split: option.splits)
    with raised Inl show ?thesis
      by simp
  next
    case (Inr m)
    then have "\<forall>m'. field e ''message'' = Some m' \<longrightarrow> m' = m"
      by (auto dest: field_getitem)
    with raised Inr show ?thesis
      by auto
  qed
qed

theorem execute_query_graphql_errors_witness:
  "\<exists>msg. execute_query
     (\<lambda>_. Responded \<lparr>status_code = 200,
                       body = Inr (JObj [(''errors'', JList [JObj [(''message'', JStr ''boom'')]]),
                                         (''data'', JObj [])])\<rparr>)
     SEARCH_QUERY None
   = Inl (ToolError msg) \<and> msg = ''Error interno: Error GraphQL: boom''"
  using execute_query_graphql_errors
    [of "\<lambda>_. Responded \<lparr>status_code = 200,
                       body = Inr (JObj [(''errors'', JList [JObj [(''message'', JStr ''boom'')]]),
                                         (''data'', JObj [])])\<rparr>"
        SEARCH_QUERY None
        "\<lparr>status_code = 200,
          body = Inr (JObj [(''errors'', JList [JObj [(''message'', JStr ''boom'')]]),
                            (''data'', JObj [])])\<rparr>"
        "JObj [(''errors'', JList [JObj [(''message'', JStr ''boom'')]]), (''data'', JObj [])]"
        "JObj [(''message'', JStr ''boom'')]" "[]"]
  by (simp add: py_str_def)

text \<open>
  C9.  When the response has a status from 200 to 299 and its JSON body is an object
  whose \<^verbatim>\<open>errors\<close> is the empty list, \<open>execute_query\<close> neither returns the data nor
  raises the \<^verbatim>\<open>Error GraphQL\<close> message: \<^verbatim>\<open>data['errors'][0]\<close> raises an \<^verbatim>\<open>IndexError\<close>, which
  the last \<^verbatim>\<open>except\<close> clause turns into a \<open>ToolError\<close> that starts with
  \<^verbatim>\<open>Error interno:\<close>.
\<close>

theorem execute_query_empty_errors:
  assumes "remote (make_payload q vars) = Responded r"
    and "200 \<le> status_code r" and "status_code r \<le> 299"
    and "body r = Inr data"
    and "field data ''errors'' = Some (JList [])"
  shows "execute_query remote q vars = Inl (ToolError ''Error interno: list index out of range'')"
  using assms(2-4) field_py_in [OF assms(5)] field_getitem [OF assms(5)]
  by (simp add: execute_query_def try_block_status [of remote q vars r, OF assms(1)]
        response_json_def)

theorem execute_query_empty_errors_witness:
  "execute_query
     (\<lambda>_. Responded \<lparr>status_code = 200,
                       body = Inr (JObj [(''errors'', JList []), (''data'', JObj [])])\<rparr>)
     GET_ENTITY_QUERY (Some [(''name'', JStr ''APT28'')])
   = Inl (ToolError ''Error interno: list index out of range'')"
  using execute_query_empty_errors
    [of "\<lambda>_. Responded \<lparr>status_code = 200,
                       body = Inr (JObj [(''errors'', JList []), (''data'', JObj [])])\<rparr>"
        GET_ENTITY_QUERY "Some [(''name'', JStr ''APT28'')]"
        "\<lparr>status_code = 200, body = Inr (JObj [(''errors'', JList []), (''data'', JObj [])])\<rparr>"
        "JObj [(''errors'', JList []), (''data'', JObj [])]"]
  by simp

text \<open>
  C6.  When the response has a status outside 200 to 299, \<open>execute_query\<close> raises a
  \<open>ToolError\<close> whose message ends with the status code in decimal, and so does each of
  the three tools: none of them returns a text.
\<close>

theorem non_2xx_status_fails:
  assumes "status_code r < 200 \<or> 299 < status_code r"
  shows "(remote (make_payload q vars) = Responded r \<longrightarrow>
            execute_query remote q vars
              = Inl (ToolError (''Error de conexi'' @ [o_acute] @ ''n con OpenCTI: ''
                                @ str_nat (status_code r))))
       \<and> (remote (make_payload SEARCH_QUERY (Some (search_vars keyword limit))) = Responded r \<longrightarrow>
            search_knowledge_base remote keyword limit
              = Inl (ToolError (''Error de conexi'' @ [o_acute] @ ''n con OpenCTI: ''
                                @ str_nat (status_code r))))
       \<and> (remote (make_payload GET_OBSERVABLE_QUERY (Some (observable_vars val))) = Responded r \<longrightarrow>
            get_observable_details remote val
              = Inl (ToolError (''Error de conexi'' @ [o_acute] @ ''n con OpenCTI: ''
                                @ str_nat (status_code r))))
       \<and> (remote (make_payload GET_ENTITY_QUERY (Some (entity_vars name))) = Responded r \<longrightarrow>
            get_threat_entity remote name
              = Inl (ToolError (''Error de conexi'' @ [o_acute] @ ''n con OpenCTI: ''
                                @ str_nat (status_code r))))"
  using assms
  by (simp add: execute_query_status search_knowledge_base_def get_observable_details_def
        get_threat_entity_def search_vars_def observable_vars_def entity_vars_def)

theorem non_2xx_status_fails_witness:
  "execute_query (\<lambda>_. Responded \<lparr>status_code = 500, body = Inl ''no JSON''\<rparr>) SEARCH_QUERY None
     = Inl (ToolError (''Error de conexi'' @ [o_acute] @ ''n con OpenCTI: 500''))
   \<and> search_knowledge_base (\<lambda>_. Responded \<lparr>status_code = 500, body = Inl ''no JSON''\<rparr>) ''apt'' 10
     = Inl (ToolError (''Error de conexi'' @ [o_acute] @ ''n con OpenCTI: 500''))
   \<and> get_observable_details (\<lambda>_. Responded \<lparr>status_code = 500, body = Inl ''no JSON''\<rparr>) ''8.8.8.8''
     = Inl (ToolError (''Error de conexi'' @ [o_acute] @ ''n con OpenCTI: 500''))
   \<and> get_threat_entity (\<lambda>_. Responded \<lparr>status_code = 500, body = Inl ''no JSON''\<rparr>) ''APT28''
     = Inl (ToolError (''Error de conexi'' @ [o_acute] @ ''n con OpenCTI: 500''))"
  using non_2xx_status_fails
    [of "\<lparr>status_code = 500, body = Inl ''no JSON''\<rparr>"
        "\<lambda>_. Responded \<lparr>status_code = 500, body = Inl ''no JSON''\<rparr>"
        SEARCH_QUERY None "''apt''" 10 "''8.8.8.8''" "''APT28''"]
  by (simp add: str_nat.simps digit_char_def)

section \<open>Properties of the tools\<close>

lemma search_knowledge_base_answers:
  "answers remote SEARCH_QUERY (search_vars keyword limit) data \<Longrightarrow>
   search_knowledge_base remote keyword limit = search_text data"
  by (simp add: search_knowledge_base_def search_vars_def [symmetric] answers_execute_query)

lemma get_observable_details_answers:
  "answers remote GET_OBSERVABLE_QUERY (observable_vars val) data \<Longrightarrow>
   get_observable_details remote val = observable_text val data"
  by (simp add: get_observable_details_def observable_vars_def [symmetric] answers_execute_query)

lemma get_threat_entity_answers:
  "answers remote GET_ENTITY_QUERY (entity_vars name) data \<Longrightarrow>
   get_threat_entity remote name = entity_text name data"
  by (simp add: get_threat_entity_def entity_vars_def [symmetric] answers_execute_query)

lemma first_recordD:
  assumes "first_record data key = Some node"
  obtains found edge rest where "field data key = Some found"
    and "field found ''edges'' = Some (JList (edge # rest))" and "field edge ''node'' = Some node"
  using assms by (auto simp: first_record_def split: option.splits json.splits list.splits)

lemma observable_text_first:
  assumes "first_record data ''stixCyberObservables'' = Some node"
  shows "observable_text val data
           = bind (observable_output node) (\<lambda>output. Inr (join [newline] output))"
proof -
  from assms obtain found edge rest where "field data ''stixCyberObservables'' = Some found"
    and "field found ''edges'' = Some (JList (edge # rest))" and "field edge ''node'' = Some node"
    by (rule first_recordD)
  then show ?thesis
    by (simp add: observable_text_def field_get field_getitem)
qed

lemma entity_text_first:
  assumes "first_record data ''stixDomainObjects'' = Some node"
  shows "entity_text name data
           = bind (entity_output node) (\<lambda>output. Inr (join [newline] output))"
proof -
  from assms obtain found edge rest where "field data ''stixDomainObjects'' = Some found"
    and "field found ''edges'' = Some (JList (edge # rest))" and "field edge ''node'' = Some node"
    by (rule first_recordD)
  then show ?thesis
    by (simp add: entity_text_def field_get field_getitem)
qed

lemma node_fieldD:
  assumes "node_field edge key = Some x"
  obtains node where "field edge ''node'' = Some node" and "field node key = Some x"
  using assms by (auto simp: node_field_def split: option.splits)

lemma join_items_strings: "join_items i (map JStr ss) = Inr ss"
  by (induction ss arbitrary: i) simp_all

lemma indicator_names_labels:
  "list_all indicator_edge es \<Longrightarrow> indicator_names es = Inr (map (\<lambda>e. JStr (indicator_label e)) es)"
proof (induction es)
  case Nil
  show ?case by simp
next
  case (Cons e es)
  from Cons.prems obtain s where s: "node_field e ''name'' = Some (JStr s)"
    by (auto simp: indicator_edge_def split: option.splits json.splits)
  then obtain node where "field e ''node'' = Some node" and "field node ''name'' = Some (JStr s)"
    by (rule node_fieldD)
  with s Cons show ?case
    by (simp add: field_getitem indicator_label_def)
qed

lemma report_texts_labels:
  "list_all report_edge es \<Longrightarrow> report_texts es = Inr (map report_label es)"
proof (induction es)
  case Nil
  show ?case by simp
next
  case (Cons e es)
  from Cons.prems obtain n p where n: "node_field e ''name'' = Some n"
    and p: "node_field e ''published'' = Some p"
    by (auto simp: report_edge_def)
  from n obtain node where e: "field e ''node'' = Some node" and "field node ''name'' = Some n"
    by (rule node_fieldD)
  moreover from p e have "field node ''published'' = Some p"
    by (simp add: node_field_def)
  ultimately show ?case
    using n p Cons by (simp add: field_getitem report_label_def)
qed

lemma connection_iter:
  assumes "connection (JObj kvs) key = Some es"
  shows "bind (get (JObj kvs) key (JObj [])) (\<lambda>c. bind (get c ''edges'' (JList [])) (\<lambda>x. bind (iter x) k))
           = k es"
  using assms
  by (auto simp: connection_def split: option.splits json.splits)

lemma py_join_labels:
  "py_join sep (map (\<lambda>e. JStr (f e)) es) = Inr (join sep (map f es))"
  using join_items_strings [of 0 "map f es"] by (simp add: py_join_def comp_def)

lemma observable_output_record:
  assumes t: "field node ''entity_type'' = Some t"
    and v: "field node ''observable_value'' = Some v"
    and ci: "connection node ''indicators'' = Some ies" and wi: "list_all indicator_edge ies"
    and cr: "connection node ''reports'' = Some res" and wr: "list_all report_edge res"
  shows "observable_output node =
           Inr [''Tipo: '' @ py_str t,
                ''Valor: '' @ py_str v,
                ''Score: '' @ py_str (py_or (field_or node ''x_opencti_score'' JNull) (JStr ''N/A'')),
                ''Descripci'' @ [o_acute] @ ''n: ''
                  @ py_str (py_or (field_or node ''x_opencti_description'' JNull) (JStr ''N/A'')),
                ''Indicadores asociados: ''
                  @ (if ies = [] then ''Ninguno'' else join '', '' (map indicator_label ies)),
                ''Mencionado en reportes: ''
                  @ (if res = [] then ''Ninguno'' else join '', '' (map report_label res))]"
proof -
  from t obtain kvs where node: "node = JObj kvs"
    by (auto dest: field_is_dict)
  have ci': "connection (JObj kvs) ''indicators'' = Some ies"
    and cr': "connection (JObj kvs) ''reports'' = Some res"
    using ci cr by (simp_all add: node)
  have names: "indicator_names ies = Inr (map (\<lambda>e. JStr (indicator_label e)) ies)"
    using wi by (rule indicator_names_labels)
  have texts: "report_texts res = Inr (map report_label res)"
    using wr by (rule report_texts_labels)
  have "observable_output (JObj kvs) =
          bind (indicator_names ies) (\<lambda>indicators.
          bind (report_texts res) (\<lambda>reports.
          bind (getitem (JObj kvs) ''entity_type'') (\<lambda>entity_type.
          bind (getitem (JObj kvs) ''observable_value'') (\<lambda>observable_value.
          bind (get (JObj kvs) ''x_opencti_score'' JNull) (\<lambda>score.
          bind (get (JObj kvs) ''x_opencti_description'' JNull) (\<lambda>description.
          bind (if indicators \<noteq> [] then py_join '', '' indicators else Inr ''Ninguno'')
            (\<lambda>indicators_text.
            Inr [''Tipo: '' @ py_str entity_type,
                 ''Valor: '' @ py_str observable_value,
                 ''Score: '' @ py_str (py_or score (JStr ''N/A'')),
                 ''Descripci'' @ [o_acute] @ ''n: '' @ py_str (py_or description (JStr ''N/A'')),
                 ''Indicadores asociados: '' @ indicators_text,
                 ''Mencionado en reportes: ''
                   @ (if reports \<noteq> [] then join '', '' reports else ''Ninguno'')])))))))"
    unfolding observable_output_def
    by (subst connection_iter [OF ci'], subst connection_iter [OF cr']) (rule refl)
  also have "\<dots> = Inr [''Tipo: '' @ py_str t,
                ''Valor: '' @ py_str v,
                ''Score: '' @ py_str (py_or (field_or node ''x_opencti_score'' JNull) (JStr ''N/A'')),
                ''Descripci'' @ [o_acute] @ ''n: ''
                  @ py_str (py_or (field_or node ''x_opencti_description'' JNull) (JStr ''N/A'')),
                ''Indicadores asociados: ''
                  @ (if ies = [] then ''Ninguno'' else join '', '' (map indicator_label ies)),
                ''Mencionado en reportes: ''
                  @ (if res = [] then ''Ninguno'' else join '', '' (map report_label res))]"
    using t v by (simp add: names texts py_join_labels field_or_def node)
  finally show ?thesis
    by (simp only: node)
qed

lemma entity_output_record:
  assumes n: "field node ''name'' = Some n" and t: "field node ''entity_type'' = Some t"
  shows "entity_output node =
           Inr ([''Nombre: '' @ py_str n,
                 ''Tipo: '' @ py_str t,
                 ''Descripci'' @ [o_acute] @ ''n: ''
                   @ py_str (py_or (field_or node ''description'' JNull) (JStr ''N/A'')),
                 ''Creado: '' @ py_str (py_or (field_or node ''created'' JNull) (JStr ''N/A''))]
                @ (if t = JStr ''Threat-Actor''
                   then [''Tipos: '' @ py_str (field_or node ''threat_actor_types'' (JList [])),
                         ''Objetivos: '' @ py_str (field_or node ''goals'' (JList []))]
                   else [])
                @ (if t = JStr ''Malware''
                   then [''Familia de malware: '' @ py_str (field_or node ''is_family'' (JBool False))]
                   else []))"
proof -
  from t obtain kvs where node: "node = JObj kvs"
    by (auto dest: field_is_dict)
  show ?thesis
    using n t by (simp add: entity_output_def node field_or_def)
qed

lemma search_line_edge:
  assumes t: "node_field edge ''entity_type'' = Some t" and i: "node_field edge ''id'' = Some i"
  obtains node where "field edge ''node'' = Some node"
    and "search_line edge =
           Inr (''- ['' @ py_str t @ ''] ''
                @ py_str (py_or (field_or node ''name'' JNull)
                           (py_or (field_or node ''observable_value'' JNull) (JStr ''Desconocido'')))
                @ '' (ID: '' @ py_str i @ ''): ''
                @ py_str (py_or (field_or node ''description'' JNull)
                           (py_or (field_or node ''x_opencti_description'' JNull)
                              (JStr (''Sin descripci'' @ [o_acute] @ ''n'')))))"
proof -
  from t obtain node where e: "field edge ''node'' = Some node" and t': "field node ''entity_type'' = Some t"
    by (rule node_fieldD)
  from i e have i': "field node ''id'' = Some i"
    by (simp add: node_field_def)
  from t' obtain kvs where node: "node = JObj kvs"
    by (auto dest: field_is_dict)
  have "search_line edge =
           Inr (''- ['' @ py_str t @ ''] ''
                @ py_str (py_or (field_or node ''name'' JNull)
                           (py_or (field_or node ''observable_value'' JNull) (JStr ''Desconocido'')))
                @ '' (ID: '' @ py_str i @ ''): ''
                @ py_str (py_or (field_or node ''description'' JNull)
                           (py_or (field_or node ''x_opencti_description'' JNull)
                              (JStr (''Sin descripci'' @ [o_acute] @ ''n'')))))"
    using t' i' by (simp add: search_line_def field_getitem [OF e] node field_or_def py_or_def)
  with e show thesis
    by (rule that)
qed

lemma split_lines_plain: "newline \<notin> set l \<Longrightarrow> split_lines l = [l]"
  by (induction l) auto

lemma split_lines_append:
  "newline \<notin> set l \<Longrightarrow> split_lines (l @ newline # rest) = l # split_lines rest"
  by (induction l) auto

lemma split_lines_join:
  "ls \<noteq> [] \<Longrightarrow> \<forall>l\<in>set ls. newline \<notin> set l \<Longrightarrow> split_lines (join [newline] ls) = ls"
proof (induction ls)
  case Nil
  then show ?case by simp
next
  case (Cons l ls)
  show ?case
  proof (cases ls)
    case Nil
    with Cons.prems show ?thesis by (simp add: split_lines_plain)
  next
    case (Cons y ys)
    with Cons.IH Cons.prems have "split_lines (join [newline] ls) = ls"
      by simp
    with Cons Cons.prems show ?thesis
      by (simp add: split_lines_append)
  qed
qed

lemma answers_replying: "answers (replying data) q vars data"
  by (simp add: answers_def replying_def)

lemma search_text_edges:
  assumes "field data ''globalSearch'' = Some found"
    and "field found ''edges'' = Some (JList es)" and "es \<noteq> []"
  shows "search_text data = bind (search_results es) (\<lambda>results. Inr (join [newline] results))"
  using assms by (simp add: search_text_def field_get)

lemma search_edge_line:
  assumes "search_edge e"
  obtains l where "search_line e = Inr l"
proof -
  from assms obtain t i where "node_field e ''entity_type'' = Some t"
    and "node_field e ''id'' = Some i"
    by (auto simp: search_edge_def)
  then show thesis
    by (rule search_line_edge) (rule that)
qed

lemma search_results_edges:
  "list_all search_edge es \<Longrightarrow>
   \<exists>ls. search_results es = Inr ls \<and> length ls = length es
      \<and> (\<forall>k<length es. search_line (es ! k) = Inr (ls ! k))"
proof (induction es)
  case Nil
  show ?case by simp
next
  case (Cons e es)
  from Cons.prems obtain l where l: "search_line e = Inr l"
    by (auto elim: search_edge_line)
  from Cons obtain ls where ls: "search_results es = Inr ls" "length ls = length es"
    and nth: "\<forall>k<length es. search_line (es ! k) = Inr (ls ! k)"
    by auto
  have "\<forall>k<length (e # es). search_line ((e # es) ! k) = Inr ((l # ls) ! k)"
    using l nth by (auto simp: nth_Cons split: nat.splits)
  with l ls show ?case
    by (intro exI [of _ "l # ls"]) simp
qed

lemma search_knowledge_base_lines:
  assumes "answers remote SEARCH_QUERY (search_vars keyword limit) data"
    and "field data ''globalSearch'' = Some found"
    and "field found ''edges'' = Some (JList es)" and "es \<noteq> []"
    and "list_all search_edge es"
  shows "\<exists>ls. search_knowledge_base remote keyword limit = Inr (join [newline] ls)
      \<and> length ls = length es
      \<and> (\<forall>k<length es. search_line (es ! k) = Inr (ls ! k))"
proof -
  from assms(5) obtain ls where ls: "search_results es = Inr ls" "length ls = length es"
    and nth: "\<forall>k<length es. search_line (es ! k) = Inr (ls ! k)"
    using search_results_edges by blast
  have "search_knowledge_base remote keyword limit = Inr (join [newline] ls)"
    using ls(1)
    by (simp add: search_knowledge_base_answers [OF assms(1)] search_text_edges [OF assms(2-4)])
  with ls(2) nth show ?thesis
    by blast
qed

lemma search_line_contains:
  assumes t: "node_field e ''entity_type'' = Some t" and i: "node_field e ''id'' = Some i"
    and l: "search_line e = Inr l"
  shows "sublist (py_str t) l \<and> sublist (py_str i) l"
proof -
  from t i obtain name desc where
    "search_line e = Inr (''- ['' @ py_str t @ ''] '' @ name @ '' (ID: '' @ py_str i @ ''): '' @ desc)"
    by (rule search_line_edge) blast
  with l have l: "l = ''- ['' @ py_str t @ ''] '' @ name @ '' (ID: '' @ py_str i @ ''): '' @ desc"
    by simp
  have "l = (''- ['' @ py_str t @ ''] '' @ name @ '' (ID: '') @ py_str i @ (''): '' @ desc)"
    by (simp add: l)
  then have "sublist (py_str i) l"
    unfolding sublist_def by blast
  moreover have "sublist (py_str t) l"
    unfolding sublist_def l by blast
  ultimately show ?thesis by simp
qed

lemma search_knowledge_base_replying:
  "search_knowledge_base (replying data) keyword limit = search_text data"
  by (rule search_knowledge_base_answers) (rule answers_replying)

lemma get_observable_details_replying:
  "get_observable_details (replying data) val = observable_text val data"
  by (rule get_observable_details_answers) (rule answers_replying)

lemma observable_text_first_edge:
  assumes "field data ''stixCyberObservables'' = Some found"
    and "field found ''edges'' = Some (JList (first # rest))"
  shows "observable_text val data =
           bind (getitem first ''node'') (\<lambda>node.
           bind (observable_output node) (\<lambda>output. Inr (join [newline] output)))"
  using assms by (simp add: observable_text_def field_get)

lemma entity_text_first_edge:
  assumes "field data ''stixDomainObjects'' = Some found"
    and "field found ''edges'' = Some (JList (first # rest))"
  shows "entity_text name data =
           bind (getitem first ''node'') (\<lambda>node.
           bind (entity_output node) (\<lambda>output. Inr (join [newline] output)))"
  using assms by (simp add: entity_text_def field_get)

lemma search_line_defaults:
  assumes t: "node_field e ''entity_type'' = Some t" and i: "node_field e ''id'' = Some i"
  shows "\<exists>name desc.
           search_line e
             = Inr (''- ['' @ py_str t @ ''] '' @ name @ '' (ID: '' @ py_str i @ ''): '' @ desc)
         \<and> (node_field e ''name'' = None \<and> node_field e ''observable_value'' = None
              \<longrightarrow> name = ''Desconocido'')
         \<and> (node_field e ''description'' = None \<and> node_field e ''x_opencti_description'' = None
              \<longrightarrow> desc = ''Sin descripci'' @ [o_acute] @ ''n'')"
proof -
  from t i obtain node where node: "field e ''node'' = Some node"
    and line: "search_line e =
           Inr (''- ['' @ py_str t @ ''] ''
                @ py_str (py_or (field_or node ''name'' JNull)
                           (py_or (field_or node ''observable_value'' JNull) (JStr ''Desconocido'')))
                @ '' (ID: '' @ py_str i @ ''): ''
                @ py_str (py_or (field_or node ''description'' JNull)
                           (py_or (field_or node ''x_opencti_description'' JNull)
                              (JStr (''Sin descripci'' @ [o_acute] @ ''n'')))))"
    by (rule search_line_edge)
  let ?name = "py_str (py_or (field_or node ''name'' JNull)
                           (py_or (field_or node ''observable_value'' JNull) (JStr ''Desconocido'')))"
  let ?desc = "py_str (py_or (field_or node ''description'' JNull)
                           (py_or (field_or node ''x_opencti_description'' JNull)
                              (JStr (''Sin descripci'' @ [o_acute] @ ''n''))))"
  have "node_field e ''name'' = None \<and> node_field e ''observable_value'' = None
          \<longrightarrow> ?name = ''Desconocido''"
    using node by (simp add: node_field_def field_or_def py_or_def py_str_def)
  moreover have "node_field e ''description'' = None \<and> node_field e ''x_opencti_description'' = None
          \<longrightarrow> ?desc = ''Sin descripci'' @ [o_acute] @ ''n''"
    using node by (simp add: node_field_def field_or_def py_or_def py_str_def)
  ultimately show ?thesis
    using line by (intro exI [of _ ?name] exI [of _ ?desc] conjI)
qed

lemma connection_absent: "field node key = None \<Longrightarrow> connection node key = Some []"
  by (simp add: connection_def)

lemma observable_defaults:
  assumes "answers remote GET_OBSERVABLE_QUERY (observable_vars val) data"
    and "first_record data ''stixCyberObservables'' = Some node"
    and "observable_record node"
  shows "\<exists>l1 l2 l3 l4 l5 l6.
           get_observable_details remote val = Inr (join [newline] [l1, l2, l3, l4, l5, l6])
         \<and> (field node ''x_opencti_score'' = None \<longrightarrow> l3 = ''Score: N/A'')
         \<and> (field node ''x_opencti_description'' = None
              \<longrightarrow> l4 = ''Descripci'' @ [o_acute] @ ''n: N/A'')
         \<and> (field node ''indicators'' = None \<longrightarrow> l5 = ''Indicadores asociados: Ninguno'')
         \<and> (field node ''reports'' = None \<longrightarrow> l6 = ''Mencionado en reportes: Ninguno'')"
proof -
  from assms(3) obtain t v ies res where "field node ''entity_type'' = Some t"
    and "field node ''observable_value'' = Some v"
    and ci: "connection node ''indicators'' = Some ies" and "list_all indicator_edge ies"
    and cr: "connection node ''reports'' = Some res" and "list_all report_edge res"
    by (auto simp: observable_record_def split: option.splits)
  then have "observable_output node =
           Inr [''Tipo: '' @ py_str t,
                ''Valor: '' @ py_str v,
                ''Score: '' @ py_str (py_or (field_or node ''x_opencti_score'' JNull) (JStr ''N/A'')),
                ''Descripci'' @ [o_acute] @ ''n: ''
                  @ py_str (py_or (field_or node ''x_opencti_description'' JNull) (JStr ''N/A'')),
                ''Indicadores asociados: ''
                  @ (if ies = [] then ''Ninguno'' else join '', '' (map indicator_label ies)),
                ''Mencionado en reportes: ''
                  @ (if res = [] then ''Ninguno'' else join '', '' (map report_label res))]"
    by (rule observable_output_record)
  then have returned: "get_observable_details remote val =
           Inr (join [newline] [''Tipo: '' @ py_str t,
                ''Valor: '' @ py_str v,
                ''Score: '' @ py_str (py_or (field_or node ''x_opencti_score'' JNull) (JStr ''N/A'')),
                ''Descripci'' @ [o_acute] @ ''n: ''
                  @ py_str (py_or (field_or node ''x_opencti_description'' JNull) (JStr ''N/A'')),
                ''Indicadores asociados: ''
                  @ (if ies = [] then ''Ninguno'' else join '', '' (map indicator_label ies)),
                ''Mencionado en reportes: ''
                  @ (if res = [] then ''Ninguno'' else join '', '' (map report_label res))])"
    by (simp only: get_observable_details_answers [OF assms(1)] observable_text_first [OF assms(2)]
          bind.simps)
  have score: "field node ''x_opencti_score'' = None \<longrightarrow>
      ''Score: '' @ py_str (py_or (field_or node ''x_opencti_score'' JNull) (JStr ''N/A'')) = ''Score: N/A''"
    by (simp add: field_or_def py_or_def py_str_def)
  have description: "field node ''x_opencti_description'' = None \<longrightarrow>
      ''Descripci'' @ [o_acute] @ ''n: ''
        @ py_str (py_or (field_or node ''x_opencti_description'' JNull) (JStr ''N/A''))
      = ''Descripci'' @ [o_acute] @ ''n: N/A''"
    by (simp add: field_or_def py_or_def py_str_def)
  have indicators: "field node ''indicators'' = None \<longrightarrow>
      ''Indicadores asociados: ''
        @ (if ies = [] then ''Ninguno'' else join '', '' (map indicator_label ies))
      = ''Indicadores asociados: Ninguno''"
    using ci by (auto dest: connection_absent)
  have reports: "field node ''reports'' = None \<longrightarrow>
      ''Mencionado en reportes: ''
        @ (if res = [] then ''Ninguno'' else join '', '' (map report_label res))
      = ''Mencionado en reportes: Ninguno''"
    using cr by (auto dest: connection_absent)
  from returned score description indicators reports show ?thesis
    by (intro exI conjI)
qed

lemma entity_defaults:
  assumes "answers remote GET_ENTITY_QUERY (entity_vars name) data"
    and "first_record data ''stixDomainObjects'' = Some node"
    and "field node ''name'' = Some n"
    and "field node ''entity_type'' = Some t"
  shows "\<exists>output.
           get_threat_entity remote name = Inr (join [newline] output) \<and> 4 \<le> length output
         \<and> (field node ''description'' = None
              \<longrightarrow> output ! 2 = ''Descripci'' @ [o_acute] @ ''n: N/A'')
         \<and> (field node ''created'' = None \<longrightarrow> output ! 3 = ''Creado: N/A'')
         \<and> (t = JStr ''Threat-Actor'' \<and> field node ''threat_actor_types'' = None
              \<longrightarrow> output ! 4 = ''Tipos: []'')
         \<and> (t = JStr ''Threat-Actor'' \<and> field node ''goals'' = None
              \<longrightarrow> output ! 5 = ''Objetivos: []'')
         \<and> (t = JStr ''Malware'' \<and> field node ''is_family'' = None
              \<longrightarrow> output ! 4 = ''Familia de malware: False'')"
proof -
  let ?output = "[''Nombre: '' @ py_str n,
                 ''Tipo: '' @ py_str t,
                 ''Descripci'' @ [o_acute] @ ''n: ''
                   @ py_str (py_or (field_or node ''description'' JNull) (JStr ''N/A'')),
                 ''Creado: '' @ py_str (py_or (field_or node ''created'' JNull) (JStr ''N/A''))]
                @ (if t = JStr ''Threat-Actor''
                   then [''Tipos: '' @ py_str (field_or node ''threat_actor_types'' (JList [])),
                         ''Objetivos: '' @ py_str (field_or node ''goals'' (JList []))]
                   else [])
                @ (if t = JStr ''Malware''
                   then [''Familia de malware: '' @ py_str (field_or node ''is_family'' (JBool False))]
                   else [])"
  have "entity_output node = Inr ?output"
    using assms(3,4) by (rule entity_output_record)
  then have returned: "get_threat_entity remote name = Inr (join [newline] ?output)"
    by (simp only: get_threat_entity_answers [OF assms(1)] entity_text_first [OF assms(2)]
          bind.simps)
  have len: "4 \<le> length ?output"
    by simp
  have description: "field node ''description'' = None
          \<longrightarrow> ?output ! 2 = ''Descripci'' @ [o_acute] @ ''n: N/A''"
    by (simp add: field_or_def py_or_def py_str_def)
  have created: "field node ''created'' = None \<longrightarrow> ?output ! 3 = ''Creado: N/A''"
    by (simp add: field_or_def py_or_def py_str_def)
  have types: "t = JStr ''Threat-Actor'' \<and> field node ''threat_actor_types'' = None
          \<longrightarrow> ?output ! 4 = ''Tipos: []''"
    by (simp add: field_or_def py_str_def)
  have goals: "t = JStr ''Threat-Actor'' \<and> field node ''goals'' = None
          \<longrightarrow> ?output ! 5 = ''Objetivos: []''"
    by (simp add: field_or_def py_str_def)
  have family: "t = JStr ''Malware'' \<and> field node ''is_family'' = None
          \<longrightarrow> ?output ! 4 = ''Familia de malware: False''"
    by (simp add: field_or_def py_str_def)
  from returned len description created types goals family show ?thesis
    by (intro exI [of _ ?output] conjI)
qed

lemma search_defaults:
  assumes "answers remote SEARCH_QUERY (search_vars keyword limit) data"
    and "field data ''globalSearch'' = Some found"
    and "field found ''edges'' = Some (JList es)" and "es \<noteq> []"
    and "list_all search_edge es"
  shows "\<exists>ls. search_knowledge_base remote keyword limit = Inr (join [newline] ls)
      \<and> length ls = length es
      \<and> (\<forall>k<length es. \<exists>t i name desc.
            ls ! k = ''- ['' @ t @ ''] '' @ name @ '' (ID: '' @ i @ ''): '' @ desc
          \<and> (node_field (es ! k) ''name'' = None \<and> node_field (es ! k) ''observable_value'' = None
               \<longrightarrow> name = ''Desconocido'')
          \<and> (node_field (es ! k) ''description'' = None
               \<and> node_field (es ! k) ''x_opencti_description'' = None
               \<longrightarrow> desc = ''Sin descripci'' @ [o_acute] @ ''n''))"
proof -
  from search_knowledge_base_lines [OF assms]
  obtain ls where returned: "search_knowledge_base remote keyword limit = Inr (join [newline] ls)"
    and len: "length ls = length es"
    and nth: "\<forall>k<length es. search_line (es ! k) = Inr (ls ! k)"
    by (elim exE conjE)
  have "\<exists>t i name desc.
            ls ! k = ''- ['' @ t @ ''] '' @ name @ '' (ID: '' @ i @ ''): '' @ desc
          \<and> (node_field (es ! k) ''name'' = None \<and> node_field (es ! k) ''observable_value'' = None
               \<longrightarrow> name = ''Desconocido'')
          \<and> (node_field (es ! k) ''description'' = None
               \<and> node_field (es ! k) ''x_opencti_description'' = None
               \<longrightarrow> desc = ''Sin descripci'' @ [o_acute] @ ''n'')" if k: "k < length es" for k
  proof -
    from assms(5) k have "search_edge (es ! k)"
      by (simp add: list_all_length)
    then obtain t i where t: "node_field (es ! k) ''entity_type'' = Some t"
      and i: "node_field (es ! k) ''id'' = Some i"
      by (auto simp: search_edge_def)
    from search_line_defaults [OF t i] obtain name desc where
      line: "search_line (es ! k)
             = Inr (''- ['' @ py_str t @ ''] '' @ name @ '' (ID: '' @ py_str i @ ''): '' @ desc)"
      and name: "node_field (es ! k) ''name'' = None \<and> node_field (es ! k) ''observable_value'' = None
              \<longrightarrow> name = ''Desconocido''"
      and desc: "node_field (es ! k) ''description'' = None
              \<and> node_field (es ! k) ''x_opencti_description'' = None
              \<longrightarrow> desc = ''Sin descripci'' @ [o_acute] @ ''n''"
      by (elim exE conjE)
    from line nth k
    have "ls ! k = ''- ['' @ py_str t @ ''] '' @ name @ '' (ID: '' @ py_str i @ ''): '' @ desc"
      by simp
    with name desc show ?thesis
      by (intro exI [of _ "py_str t"] exI [of _ "py_str i"] exI [of _ name] exI [of _ desc] conjI)
  qed
  with returned len show ?thesis
    by (intro exI [of _ ls]) simp
qed

lemma digit_char_plain: "digit_char d \<noteq> newline"
proof -
  have "''0123456789'' ! (d mod 10) \<in> set ''0123456789''"
    by (rule nth_mem) simp
  then show ?thesis
    by (auto simp: digit_char_def newline_def)
qed

lemma hex_char_plain: "hex_char d \<noteq> newline"
proof -
  have "''0123456789abcdef'' ! (d mod 16) \<in> set ''0123456789abcdef''"
    by (rule nth_mem) simp
  then show ?thesis
    by (auto simp: hex_char_def newline_def)
qed

lemma str_nat_plain: "newline \<notin> set (str_nat n)"
proof (induction n rule: str_nat.induct)
  case (1 n)
  then show ?case
    by (subst str_nat.simps) (auto simp: digit_char_plain [symmetric])
qed

lemma str_int_plain: "newline \<notin> set (str_int i)"
  by (simp add: str_int_def str_nat_plain) (simp add: newline_def)

lemma repr_char_plain: "q \<noteq> newline \<Longrightarrow> newline \<notin> set (repr_char q c)"
  using hex_char_plain [of "of_char c div 16"] hex_char_plain [of "of_char c mod 16"]
  by (auto simp: repr_char_def newline_def backslash_def)

lemma repr_str_plain: "newline \<notin> set (repr_str s)"
proof -
  have "repr_quote s \<noteq> newline"
    by (simp add: repr_quote_def sq_def dq_def newline_def)
  then show ?thesis
    by (auto simp: repr_str_def Let_def dest: repr_char_plain)
qed

lemma join_plain:
  "newline \<notin> set sep \<Longrightarrow> \<forall>x\<in>set xs. newline \<notin> set x \<Longrightarrow> newline \<notin> set (join sep xs)"
  by (induction sep xs rule: join.induct) auto

lemma py_repr_plain: "newline \<notin> set (py_repr v)"
proof (induction v)
  case (JList xs)
  then have "newline \<notin> set (join '', '' (map py_repr xs))"
    by (intro join_plain) (auto simp: newline_def)
  then show ?case
    by (simp add: newline_def)
next
  case (JObj kvs)
  have item: "newline \<notin> set (py_repr b)" if "(a, b) \<in> set kvs" for a b
    using JObj [OF that, of b] Basic_BNFs.snds.intros [of "(a, b)"] by simp
  have "newline \<notin> set (repr_str (fst kv) @ '': '' @ py_repr (snd kv))" if "kv \<in> set kvs" for kv
    using that item [of "fst kv" "snd kv"] repr_str_plain [of "fst kv"]
    by (simp add: newline_def)
  then have "newline \<notin> set (join '', '' (map (\<lambda>(k, v). repr_str k @ '': '' @ py_repr v) kvs))"
    by (intro join_plain) (auto simp: newline_def case_prod_unfold)
  then show ?case
    by (simp add: newline_def)
qed (simp_all add: str_int_plain, simp_all add: newline_def repr_str_plain [unfolded newline_def])

lemma py_str_plain: "plain v \<Longrightarrow> newline \<notin> set (py_str v)"
  by (cases v) (simp_all add: py_str_def py_repr_plain del: py_repr.simps)

lemma plain_py_or: "plain a \<Longrightarrow> plain b \<Longrightarrow> plain (py_or a b)"
  by (simp add: py_or_def)

lemma plain_record_field: "plain_record node \<Longrightarrow> field node key = Some v \<Longrightarrow> plain v"
  by (cases node) (auto simp: plain_record_def field_def list_all_iff dest!: map_of_SomeD)

lemma plain_field_or: "plain_record node \<Longrightarrow> plain d \<Longrightarrow> plain (field_or node key d)"
  by (auto simp: field_or_def split: option.splits dest: plain_record_field)

lemma search_line_plain:
  assumes "search_edge e" and "plain_edge e" and "search_line e = Inr l"
  shows "newline \<notin> set l"
proof -
  from assms(1) obtain t i where t: "node_field e ''entity_type'' = Some t"
    and i: "node_field e ''id'' = Some i"
    by (auto simp: search_edge_def)
  from t i obtain node where node: "field e ''node'' = Some node"
    and line: "search_line e =
           Inr (''- ['' @ py_str t @ ''] ''
                @ py_str (py_or (field_or node ''name'' JNull)
                           (py_or (field_or node ''observable_value'' JNull) (JStr ''Desconocido'')))
                @ '' (ID: '' @ py_str i @ ''): ''
                @ py_str (py_or (field_or node ''description'' JNull)
                           (py_or (field_or node ''x_opencti_description'' JNull)
                              (JStr (''Sin descripci'' @ [o_acute] @ ''n'')))))"
    by (rule search_line_edge)
  from node assms(2) have rec: "plain_record node"
    by (simp add: plain_edge_def)
  from t i node have "field node ''entity_type'' = Some t" and "field node ''id'' = Some i"
    by (simp_all add: node_field_def)
  with rec have "plain t" and "plain i"
    by (auto dest: plain_record_field)
  then have "newline \<notin> set (py_str t)" and "newline \<notin> set (py_str i)"
    by (simp_all add: py_str_plain)
  moreover have "newline \<notin> set (py_str (py_or (field_or node ''name'' JNull)
                           (py_or (field_or node ''observable_value'' JNull) (JStr ''Desconocido''))))"
    using rec by (intro py_str_plain plain_py_or plain_field_or) (simp_all add: newline_def)
  moreover have "newline \<notin> set (py_str (py_or (field_or node ''description'' JNull)
                           (py_or (field_or node ''x_opencti_description'' JNull)
                              (JStr (''Sin descripci'' @ [o_acute] @ ''n'')))))"
    using rec
    by (intro py_str_plain plain_py_or plain_field_or) (simp_all add: newline_def o_acute_def)
  ultimately show ?thesis
    using line assms(3) by (auto simp: newline_def)
qed

lemma search_plain_lines:
  assumes "answers remote SEARCH_QUERY (search_vars keyword limit) data"
    and "field data ''globalSearch'' = Some found"
    and "field found ''edges'' = Some (JList es)" and "es \<noteq> []"
    and "list_all search_edge es" and "list_all plain_edge es"
  shows "\<exists>txt. search_knowledge_base remote keyword limit = Inr txt
      \<and> length (split_lines txt) = length es
      \<and> (\<forall>k<length es. search_line (es ! k) = Inr (split_lines txt ! k))"
proof -
  from search_knowledge_base_lines [OF assms(1-5)]
  obtain ls where returned: "search_knowledge_base remote keyword limit = Inr (join [newline] ls)"
    and len: "length ls = length es"
    and nth: "\<forall>k<length es. search_line (es ! k) = Inr (ls ! k)"
    by (elim exE conjE)
  have "newline \<notin> set l" if "l \<in> set ls" for l
  proof -
    from that len obtain k where k: "k < length es" and l: "l = ls ! k"
      by (auto simp: in_set_conv_nth)
    with assms(5,6) have "search_edge (es ! k)" and "plain_edge (es ! k)"
      by (simp_all add: list_all_length)
    moreover from nth k l have "search_line (es ! k) = Inr l"
      by simp
    ultimately show ?thesis
      by (rule search_line_plain)
  qed
  moreover from assms(4) len have "ls \<noteq> []"
    by auto
  ultimately have "split_lines (join [newline] ls) = ls"
    by (simp add: split_lines_join)
  with returned len nth show ?thesis
    by (intro exI [of _ "join [newline] ls"]) simp
qed


text \<open>
  C4.  When the remote answers with an empty list of edges, \<open>search_knowledge_base\<close>
  returns its fixed sentence, and \<open>get_observable_details\<close> and \<open>get_threat_entity\<close>
  return their sentence followed by the value that was asked for; none of them raises.
\<close>

theorem empty_edge_list_gives_sentinel:
  "(answers remote SEARCH_QUERY (search_vars keyword limit) d1 \<and>
    field d1 ''globalSearch'' = Some f1 \<and> field f1 ''edges'' = Some (JList []) \<longrightarrow>
      search_knowledge_base remote keyword limit = Inr ''No se encontraron resultados.'')
 \<and> (answers remote GET_OBSERVABLE_QUERY (observable_vars val) d2 \<and>
    field d2 ''stixCyberObservables'' = Some f2 \<and> field f2 ''edges'' = Some (JList []) \<longrightarrow>
      get_observable_details remote val
        = Inr (''No se encontr'' @ [o_acute] @ '' informaci'' @ [o_acute]
               @ ''n para el observable: '' @ val))
 \<and> (answers remote GET_ENTITY_QUERY (entity_vars name) d3 \<and>
    field d3 ''stixDomainObjects'' = Some f3 \<and> field f3 ''edges'' = Some (JList []) \<longrightarrow>
      get_threat_entity remote name = Inr (''No se encontr'' @ [o_acute] @ '' la entidad: '' @ name))"
proof (intro conjI impI; elim conjE)
  assume "answers remote SEARCH_QUERY (search_vars keyword limit) d1"
    and "field d1 ''globalSearch'' = Some f1" and "field f1 ''edges'' = Some (JList [])"
  then show "search_knowledge_base remote keyword limit = Inr ''No se encontraron resultados.''"
    by (simp add: search_knowledge_base_answers search_text_def field_get)
next
  assume "answers remote GET_OBSERVABLE_QUERY (observable_vars val) d2"
    and "field d2 ''stixCyberObservables'' = Some f2" and "field f2 ''edges'' = Some (JList [])"
  then show "get_observable_details remote val
        = Inr (''No se encontr'' @ [o_acute] @ '' informaci'' @ [o_acute]
               @ ''n para el observable: '' @ val)"
    by (simp add: get_observable_details_answers observable_text_def field_get)
next
  assume "answers remote GET_ENTITY_QUERY (entity_vars name) d3"
    and "field d3 ''stixDomainObjects'' = Some f3" and "field f3 ''edges'' = Some (JList [])"
  then show "get_threat_entity remote name
        = Inr (''No se encontr'' @ [o_acute] @ '' la entidad: '' @ name)"
    by (simp add: get_threat_entity_answers entity_text_def field_get)
qed

theorem empty_edge_list_gives_sentinel_witness:
  "search_knowledge_base (replying (JObj [(''globalSearch'', JObj [(''edges'', JList [])])])) ''apt'' 10
     = Inr ''No se encontraron resultados.''
 \<and> get_observable_details (replying (JObj [(''stixCyberObservables'', JObj [(''edges'', JList [])])]))
       ''8.8.8.8''
     = Inr (''No se encontr'' @ [o_acute] @ '' informaci'' @ [o_acute]
            @ ''n para el observable: 8.8.8.8'')
 \<and> get_threat_entity (replying (JObj [(''stixDomainObjects'', JObj [(''edges'', JList [])])])) ''APT28''
     = Inr (''No se encontr'' @ [o_acute] @ '' la entidad: APT28'')"
  using
    empty_edge_list_gives_sentinel
      [of "replying (JObj [(''globalSearch'', JObj [(''edges'', JList [])])])" "''apt''" 10
          "JObj [(''globalSearch'', JObj [(''edges'', JList [])])]" "JObj [(''edges'', JList [])]"
          "''x''" "JNull" "JNull" "''x''" "JNull" "JNull"]
    empty_edge_list_gives_sentinel
      [of "replying (JObj [(''stixCyberObservables'', JObj [(''edges'', JList [])])])" "''x''" 10
          "JNull" "JNull" "''8.8.8.8''"
          "JObj [(''stixCyberObservables'', JObj [(''edges'', JList [])])]"
          "JObj [(''edges'', JList [])]" "''x''" "JNull" "JNull"]
    empty_edge_list_gives_sentinel
      [of "replying (JObj [(''stixDomainObjects'', JObj [(''edges'', JList [])])])" "''x''" 10
          "JNull" "JNull" "''x''" "JNull" "JNull" "''APT28''"
          "JObj [(''stixDomainObjects'', JObj [(''edges'', JList [])])]"
          "JObj [(''edges'', JList [])]"]
  by (simp add: answers_replying)

text \<open>
  C10.  For a first observable record with the fields read by subscript, the tool
  returns six lines; when \<^verbatim>\<open>x_opencti_score\<close> is present and equal to 0 the third is
  \<^verbatim>\<open>Score: N/A\<close>, and when \<^verbatim>\<open>x_opencti_description\<close> is present and the empty string the
  fourth is the description line with \<^verbatim>\<open>N/A\<close>: the fallback \<^verbatim>\<open>or\<close> goes by truth value, not
  by the absence of the key.
\<close>

theorem falsy_score_and_description_fall_back:
  assumes "answers remote GET_OBSERVABLE_QUERY (observable_vars val) data"
    and "first_record data ''stixCyberObservables'' = Some node"
    and "observable_record node"
  shows "\<exists>l1 l2 l3 l4 l5 l6.
           observable_output node = Inr [l1, l2, l3, l4, l5, l6]
         \<and> get_observable_details remote val = Inr (join [newline] [l1, l2, l3, l4, l5, l6])
         \<and> (field node ''x_opencti_score'' = Some (JInt 0) \<longrightarrow> l3 = ''Score: N/A'')
         \<and> (field node ''x_opencti_description'' = Some (JStr [])
              \<longrightarrow> l4 = ''Descripci'' @ [o_acute] @ ''n: N/A'')"
proof -
  from assms(3) obtain t v ies res where "field node ''entity_type'' = Some t"
    and "field node ''observable_value'' = Some v"
    and "connection node ''indicators'' = Some ies" and "list_all indicator_edge ies"
    and "connection node ''reports'' = Some res" and "list_all report_edge res"
    by (auto simp: observable_record_def split: option.splits)
  then have built: "observable_output node =
           Inr [''Tipo: '' @ py_str t,
                ''Valor: '' @ py_str v,
                ''Score: '' @ py_str (py_or (field_or node ''x_opencti_score'' JNull) (JStr ''N/A'')),
                ''Descripci'' @ [o_acute] @ ''n: ''
                  @ py_str (py_or (field_or node ''x_opencti_description'' JNull) (JStr ''N/A'')),
                ''Indicadores asociados: ''
                  @ (if ies = [] then ''Ninguno'' else join '', '' (map indicator_label ies)),
                ''Mencionado en reportes: ''
                  @ (if res = [] then ''Ninguno'' else join '', '' (map report_label res))]"
    by (rule observable_output_record)
  then have returned: "get_observable_details remote val =
           Inr (join [newline] [''Tipo: '' @ py_str t,
                ''Valor: '' @ py_str v,
                ''Score: '' @ py_str (py_or (field_or node ''x_opencti_score'' JNull) (JStr ''N/A'')),
                ''Descripci'' @ [o_acute] @ ''n: ''
                  @ py_str (py_or (field_or node ''x_opencti_description'' JNull) (JStr ''N/A'')),
                ''Indicadores asociados: ''
                  @ (if ies = [] then ''Ninguno'' else join '', '' (map indicator_label ies)),
                ''Mencionado en reportes: ''
                  @ (if res = [] then ''Ninguno'' else join '', '' (map report_label res))])"
    by (simp only: get_observable_details_answers [OF assms(1)] observable_text_first [OF assms(2)]
          bind.simps)
  have score: "field node ''x_opencti_score'' = Some (JInt 0) \<longrightarrow>
      ''Score: '' @ py_str (py_or (field_or node ''x_opencti_score'' JNull) (JStr ''N/A'')) = ''Score: N/A''"
    by (simp add: field_or_def py_or_def py_str_def)
  have description: "field node ''x_opencti_description'' = Some (JStr []) \<longrightarrow>
      ''Descripci'' @ [o_acute] @ ''n: ''
        @ py_str (py_or (field_or node ''x_opencti_description'' JNull) (JStr ''N/A''))
      = ''Descripci'' @ [o_acute] @ ''n: N/A''"
    by (simp add: field_or_def py_or_def py_str_def)
  from built returned score description show ?thesis
    by (intro exI conjI)
qed

theorem falsy_score_and_description_fall_back_witness:
  "\<exists>l1 l2 l3 l4 l5 l6.
     observable_output
         (JObj [(''entity_type'', JStr ''IPv4-Addr''), (''observable_value'', JStr ''8.8.8.8''),
                (''x_opencti_score'', JInt 0), (''x_opencti_description'', JStr '''')])
       = Inr [l1, l2, l3, l4, l5, l6]
     \<and> get_observable_details
       (replying (JObj [(''stixCyberObservables'', JObj [(''edges'', JList [JObj [(''node'',
          JObj [(''entity_type'', JStr ''IPv4-Addr''), (''observable_value'', JStr ''8.8.8.8''),
                (''x_opencti_score'', JInt 0), (''x_opencti_description'', JStr '''')])]])])]))
       ''8.8.8.8''
       = Inr (join [newline] [l1, l2, l3, l4, l5, l6])
     \<and> l3 = ''Score: N/A'' \<and> l4 = ''Descripci'' @ [o_acute] @ ''n: N/A''"
  using falsy_score_and_description_fall_back
    [of "replying (JObj [(''stixCyberObservables'', JObj [(''edges'', JList [JObj [(''node'',
          JObj [(''entity_type'', JStr ''IPv4-Addr''), (''observable_value'', JStr ''8.8.8.8''),
                (''x_opencti_score'', JInt 0), (''x_opencti_description'', JStr '''')])]])])])"
        "''8.8.8.8''"
        "JObj [(''stixCyberObservables'', JObj [(''edges'', JList [JObj [(''node'',
          JObj [(''entity_type'', JStr ''IPv4-Addr''), (''observable_value'', JStr ''8.8.8.8''),
                (''x_opencti_score'', JInt 0), (''x_opencti_description'', JStr '''')])]])])]"
        "JObj [(''entity_type'', JStr ''IPv4-Addr''), (''observable_value'', JStr ''8.8.8.8''),
                (''x_opencti_score'', JInt 0), (''x_opencti_description'', JStr '''')]"]
  by (simp add: answers_replying first_record_def observable_record_def connection_def)

text \<open>
  C8.  When the first observable record has \<^verbatim>\<open>entity_type\<close> and \<^verbatim>\<open>observable_value\<close>, the
  score 50, two indicator edges with the names \<open>n1\<close> and \<open>n2\<close>, and one report edge with
  a name and a publication date, the tool returns six lines: the third is \<^verbatim>\<open>Score: 50\<close>,
  the fifth holds the two names joined by a comma and a space, the sixth the report as
  \<^verbatim>\<open>name (published)\<close>.
\<close>

theorem observable_with_score_indicators_report:
  assumes "answers remote GET_OBSERVABLE_QUERY (observable_vars val) data"
    and "first_record data ''stixCyberObservables'' = Some node"
    and "field node ''entity_type'' = Some t"
    and "field node ''observable_value'' = Some v"
    and "field node ''x_opencti_score'' = Some (JInt 50)"
    and "connection node ''indicators'' = Some [i1, i2]"
    and "node_field i1 ''name'' = Some (JStr n1)"
    and "node_field i2 ''name'' = Some (JStr n2)"
    and "connection node ''reports'' = Some [r]"
    and "node_field r ''name'' = Some rn"
    and "node_field r ''published'' = Some rp"
  shows "\<exists>l4.
           get_observable_details remote val
             = Inr (join [newline]
                 [''Tipo: '' @ py_str t, ''Valor: '' @ py_str v, ''Score: 50'', l4,
                  ''Indicadores asociados: '' @ n1 @ '', '' @ n2,
                  ''Mencionado en reportes: '' @ py_str rn @ '' ('' @ py_str rp @ '')''])"
proof -
  have "list_all indicator_edge [i1, i2]"
    using assms(7,8) by (simp add: indicator_edge_def)
  moreover have "list_all report_edge [r]"
    using assms(10,11) by (simp add: report_edge_def)
  ultimately have "observable_output node =
           Inr [''Tipo: '' @ py_str t,
                ''Valor: '' @ py_str v,
                ''Score: '' @ py_str (py_or (field_or node ''x_opencti_score'' JNull) (JStr ''N/A'')),
                ''Descripci'' @ [o_acute] @ ''n: ''
                  @ py_str (py_or (field_or node ''x_opencti_description'' JNull) (JStr ''N/A'')),
                ''Indicadores asociados: ''
                  @ (if [i1, i2] = [] then ''Ninguno'' else join '', '' (map indicator_label [i1, i2])),
                ''Mencionado en reportes: ''
                  @ (if [r] = [] then ''Ninguno'' else join '', '' (map report_label [r]))]"
    using assms(3,4,6,9) by (intro observable_output_record)
  moreover have "py_str (py_or (field_or node ''x_opencti_score'' JNull) (JStr ''N/A'')) = ''50''"
    using assms(5)
    by (simp add: field_or_def py_or_def py_str_def str_int_def str_nat.simps digit_char_def)
  moreover have "join '', '' (map indicator_label [i1, i2]) = n1 @ '', '' @ n2"
    using assms(7,8) by (simp add: indicator_label_def)
  moreover have "join '', '' (map report_label [r]) = py_str rn @ '' ('' @ py_str rp @ '')''"
    using assms(10,11) by (simp add: report_label_def)
  ultimately have "observable_output node =
           Inr [''Tipo: '' @ py_str t,
                ''Valor: '' @ py_str v,
                ''Score: 50'',
                ''Descripci'' @ [o_acute] @ ''n: ''
                  @ py_str (py_or (field_or node ''x_opencti_description'' JNull) (JStr ''N/A'')),
                ''Indicadores asociados: '' @ n1 @ '', '' @ n2,
                ''Mencionado en reportes: '' @ py_str rn @ '' ('' @ py_str rp @ '')'']"
    by simp
  then have "get_observable_details remote val =
           Inr (join [newline] [''Tipo: '' @ py_str t,
                ''Valor: '' @ py_str v,
                ''Score: 50'',
                ''Descripci'' @ [o_acute] @ ''n: ''
                  @ py_str (py_or (field_or node ''x_opencti_description'' JNull) (JStr ''N/A'')),
                ''Indicadores asociados: '' @ n1 @ '', '' @ n2,
                ''Mencionado en reportes: '' @ py_str rn @ '' ('' @ py_str rp @ '')''])"
    by (simp only: get_observable_details_answers [OF assms(1)] observable_text_first [OF assms(2)]
          bind.simps)
  then show ?thesis
    by blast
qed

theorem observable_with_score_indicators_report_witness:
  "\<exists>l4.
     get_observable_details
       (replying (JObj [(''stixCyberObservables'', JObj [(''edges'', JList [JObj [(''node'',
          JObj [(''entity_type'', JStr ''IPv4-Addr''), (''observable_value'', JStr ''8.8.8.8''),
                (''x_opencti_score'', JInt 50),
                (''indicators'', JObj [(''edges'',
                   JList [JObj [(''node'', JObj [(''name'', JStr ''dns-a''), (''pattern'', JStr ''p'')])],
                          JObj [(''node'', JObj [(''name'', JStr ''dns-b''), (''pattern'', JStr ''q'')])]])]),
                (''reports'', JObj [(''edges'',
                   JList [JObj [(''node'', JObj [(''name'', JStr ''Resolvers''),
                                                 (''published'', JStr ''2024-01-02'')])]])])])]])])]))
       ''8.8.8.8''
       = Inr (join [newline]
           [''Tipo: IPv4-Addr'', ''Valor: 8.8.8.8'', ''Score: 50'', l4,
            ''Indicadores asociados: dns-a, dns-b'',
            ''Mencionado en reportes: Resolvers (2024-01-02)''])"
  using observable_with_score_indicators_report
    [of "replying (JObj [(''stixCyberObservables'', JObj [(''edges'', JList [JObj [(''node'',
          JObj [(''entity_type'', JStr ''IPv4-Addr''), (''observable_value'', JStr ''8.8.8.8''),
                (''x_opencti_score'', JInt 50),
                (''indicators'', JObj [(''edges'',
                   JList [JObj [(''node'', JObj [(''name'', JStr ''dns-a''), (''pattern'', JStr ''p'')])],
                          JObj [(''node'', JObj [(''name'', JStr ''dns-b''), (''pattern'', JStr ''q'')])]])]),
                (''reports'', JObj [(''edges'',
                   JList [JObj [(''node'', JObj [(''name'', JStr ''Resolvers''),
                                                 (''published'', JStr ''2024-01-02'')])]])])])]])])])"
        "''8.8.8.8''"
        "JObj [(''stixCyberObservables'', JObj [(''edges'', JList [JObj [(''node'',
          JObj [(''entity_type'', JStr ''IPv4-Addr''), (''observable_value'', JStr ''8.8.8.8''),
                (''x_opencti_score'', JInt 50),
                (''indicators'', JObj [(''edges'',
                   JList [JObj [(''node'', JObj [(''name'', JStr ''dns-a''), (''pattern'', JStr ''p'')])],
                          JObj [(''node'', JObj [(''name'', JStr ''dns-b''), (''pattern'', JStr ''q'')])]])]),
                (''reports'', JObj [(''edges'',
                   JList [JObj [(''node'', JObj [(''name'', JStr ''Resolvers''),
                                                 (''published'', JStr ''2024-01-02'')])]])])])]])])]"
        "JObj [(''entity_type'', JStr ''IPv4-Addr''), (''observable_value'', JStr ''8.8.8.8''),
                (''x_opencti_score'', JInt 50),
                (''indicators'', JObj [(''edges'',
                   JList [JObj [(''node'', JObj [(''name'', JStr ''dns-a''), (''pattern'', JStr ''p'')])],
                          JObj [(''node'', JObj [(''name'', JStr ''dns-b''), (''pattern'', JStr ''q'')])]])]),
                (''reports'', JObj [(''edges'',
                   JList [JObj [(''node'', JObj [(''name'', JStr ''Resolvers''),
                                                 (''published'', JStr ''2024-01-02'')])]])])]"
        "JStr ''IPv4-Addr''" "JStr ''8.8.8.8''"
        "JObj [(''node'', JObj [(''name'', JStr ''dns-a''), (''pattern'', JStr ''p'')])]"
        "JObj [(''node'', JObj [(''name'', JStr ''dns-b''), (''pattern'', JStr ''q'')])]"
        "''dns-a''" "''dns-b''"
        "JObj [(''node'', JObj [(''name'', JStr ''Resolvers''), (''published'', JStr ''2024-01-02'')])]"
        "JStr ''Resolvers''" "JStr ''2024-01-02''"]
  by (simp add: answers_replying first_record_def connection_def node_field_def py_str_def)




text \<open>
  C3 as it is written fails: it promises a text of exactly N lines for N records, the
  i-th line holding the type and the identifier of the i-th record.  The tool copies the
  fields into the text as they are, so a line feed inside a field makes more lines.
  Here one record, whose description has two lines, gives a text of two lines, and
  the second holds neither the type nor the identifier.
\<close>

theorem search_one_record_two_lines_counterexample:
  "search_knowledge_base
     (replying (JObj [(''globalSearch'', JObj [(''edges'', JList [JObj [(''node'',
        JObj [(''id'', JStr ''m1''), (''entity_type'', JStr ''Malware''), (''name'', JStr ''Emotet''),
              (''description'', JStr (''Banking trojan.'' @ [newline] @ ''Spreads by mail.''))])]])])]))
     ''emotet'' 10
     = Inr (''- [Malware] Emotet (ID: m1): Banking trojan.'' @ [newline] @ ''Spreads by mail.'')
   \<and> split_lines (''- [Malware] Emotet (ID: m1): Banking trojan.'' @ [newline] @ ''Spreads by mail.'')
     = [''- [Malware] Emotet (ID: m1): Banking trojan.'', ''Spreads by mail.'']"
  by (simp add: search_knowledge_base_replying search_text_def search_line_def py_str_def
        newline_def)

text \<open>
  C3, amended.  When the remote answers with N records (N at least 1), each with a node
  that has \<^verbatim>\<open>entity_type\<close> and \<^verbatim>\<open>id\<close> and whose string fields hold no line feed,
  \<open>search_knowledge_base\<close> returns a text of exactly N lines, the i-th line being the
  line of the i-th record and containing the text of its \<^verbatim>\<open>entity_type\<close> and of its
  \<^verbatim>\<open>id\<close>.  (The bound \<^verbatim>\<open>limit\<close> on N is the remote's affair: the tool formats whatever
  it receives.)
\<close>

theorem search_lines_of_records:
  assumes "answers remote SEARCH_QUERY (search_vars keyword limit) data"
    and "field data ''globalSearch'' = Some found"
    and "field found ''edges'' = Some (JList es)" and "es \<noteq> []"
    and "list_all search_edge es" and "list_all plain_edge es"
  shows "\<exists>out. search_knowledge_base remote keyword limit = Inr out
      \<and> length (split_lines out) = length es
      \<and> (\<forall>k<length es. \<exists>t i.
            node_field (es ! k) ''entity_type'' = Some t \<and> node_field (es ! k) ''id'' = Some i
          \<and> search_line (es ! k) = Inr (split_lines out ! k)
          \<and> sublist (py_str t) (split_lines out ! k) \<and> sublist (py_str i) (split_lines out ! k))"
proof -
  from search_plain_lines [OF assms]
  obtain out where returned: "search_knowledge_base remote keyword limit = Inr out"
    and len: "length (split_lines out) = length es"
    and nth: "\<forall>k<length es. search_line (es ! k) = Inr (split_lines out ! k)"
    by (elim exE conjE)
  have "\<exists>t i. node_field (es ! k) ''entity_type'' = Some t \<and> node_field (es ! k) ''id'' = Some i
          \<and> search_line (es ! k) = Inr (split_lines out ! k)
          \<and> sublist (py_str t) (split_lines out ! k) \<and> sublist (py_str i) (split_lines out ! k)"
    if k: "k < length es" for k
  proof -
    from assms(5) k have "search_edge (es ! k)"
      by (simp add: list_all_length)
    then obtain t i where t: "node_field (es ! k) ''entity_type'' = Some t"
      and i: "node_field (es ! k) ''id'' = Some i"
      by (auto simp: search_edge_def)
    from nth k have line: "search_line (es ! k) = Inr (split_lines out ! k)"
      by simp
    from t i line search_line_contains [OF t i line] show ?thesis
      by (intro exI [of _ t] exI [of _ i]) simp
  qed
  with returned len show ?thesis
    by (intro exI [of _ out]) simp
qed

theorem search_lines_of_records_witness:
  "\<exists>out. search_knowledge_base
          (replying (JObj [(''globalSearch'', JObj [(''edges'',
             JList [JObj [(''node'', JObj [(''id'', JStr ''m1''), (''entity_type'', JStr ''Malware''),
                                           (''name'', JStr ''Emotet'')])],
                    JObj [(''node'', JObj [(''id'', JStr ''o1''), (''entity_type'', JStr ''IPv4-Addr''),
                                           (''observable_value'', JStr ''8.8.8.8'')])]])])]))
          ''e'' 10
        = Inr out
      \<and> length (split_lines out) = 2
      \<and> sublist ''Malware'' (split_lines out ! 0) \<and> sublist ''m1'' (split_lines out ! 0)
      \<and> sublist ''IPv4-Addr'' (split_lines out ! 1) \<and> sublist ''o1'' (split_lines out ! 1)"
proof -
  let ?e1 = "JObj [(''node'', JObj [(''id'', JStr ''m1''), (''entity_type'', JStr ''Malware''),
                                    (''name'', JStr ''Emotet'')])]"
  let ?e2 = "JObj [(''node'', JObj [(''id'', JStr ''o1''), (''entity_type'', JStr ''IPv4-Addr''),
                                    (''observable_value'', JStr ''8.8.8.8'')])]"
  let ?found = "JObj [(''edges'', JList [?e1, ?e2])]"
  let ?data = "JObj [(''globalSearch'', ?found)]"
  have "\<exists>out. search_knowledge_base (replying ?data) ''e'' 10 = Inr out
      \<and> length (split_lines out) = length [?e1, ?e2]
      \<and> (\<forall>k<length [?e1, ?e2]. \<exists>t i.
            node_field ([?e1, ?e2] ! k) ''entity_type'' = Some t
          \<and> node_field ([?e1, ?e2] ! k) ''id'' = Some i
          \<and> search_line ([?e1, ?e2] ! k) = Inr (split_lines out ! k)
          \<and> sublist (py_str t) (split_lines out ! k) \<and> sublist (py_str i) (split_lines out ! k))"
    by (rule search_lines_of_records [of _ _ _ ?data ?found])
       (simp_all add: answers_replying search_edge_def plain_edge_def plain_record_def
          node_field_def newline_def)
  then obtain out where returned: "search_knowledge_base (replying ?data) ''e'' 10 = Inr out"
    and len: "length (split_lines out) = length [?e1, ?e2]"
    and nth: "\<forall>k<length [?e1, ?e2]. \<exists>t i.
            node_field ([?e1, ?e2] ! k) ''entity_type'' = Some t
          \<and> node_field ([?e1, ?e2] ! k) ''id'' = Some i
          \<and> search_line ([?e1, ?e2] ! k) = Inr (split_lines out ! k)
          \<and> sublist (py_str t) (split_lines out ! k) \<and> sublist (py_str i) (split_lines out ! k)"
    by (elim exE conjE)
  from nth [rule_format, of 0]
  have c0: "sublist ''Malware'' (split_lines out ! 0) \<and> sublist ''m1'' (split_lines out ! 0)"
    by (auto simp: node_field_def py_str_def)
  from nth [rule_format, of 1]
  have c1: "sublist ''IPv4-Addr'' (split_lines out ! 1) \<and> sublist ''o1'' (split_lines out ! 1)"
    by (auto simp: node_field_def py_str_def)
  from returned len c0 c1 show ?thesis
    by (intro exI [of _ out]) simp
qed

text \<open>
  C5 as it is written fails in its last part, that \<open>search_knowledge_base\<close> formats
  every record as one line: a record with a line feed in a field takes several lines of
  the text.  Here two records give three lines.
\<close>

theorem search_two_records_three_lines_counterexample:
  "search_knowledge_base
     (replying (JObj [(''globalSearch'', JObj [(''edges'',
        JList [JObj [(''node'', JObj [(''id'', JStr ''a1''), (''entity_type'', JStr ''Threat-Actor''),
                                      (''name'', JStr ''APT28''),
                                      (''description'', JStr (''Also known as:'' @ [newline] @ ''Fancy Bear''))])],
               JObj [(''node'', JObj [(''id'', JStr ''t1''), (''entity_type'', JStr ''Tool''),
                                      (''name'', JStr ''nmap''), (''description'', JStr ''scanner'')])]])])]))
     ''apt'' 10
     = Inr (''- [Threat-Actor] APT28 (ID: a1): Also known as:'' @ [newline] @ ''Fancy Bear''
            @ [newline] @ ''- [Tool] nmap (ID: t1): scanner'')
   \<and> split_lines (''- [Threat-Actor] APT28 (ID: a1): Also known as:'' @ [newline] @ ''Fancy Bear''
            @ [newline] @ ''- [Tool] nmap (ID: t1): scanner'')
     = [''- [Threat-Actor] APT28 (ID: a1): Also known as:'', ''Fancy Bear'',
        ''- [Tool] nmap (ID: t1): scanner'']"
  by (simp add: search_knowledge_base_replying search_text_def search_line_def py_str_def
        newline_def)

text \<open>
  C5, amended.  \<open>get_observable_details\<close> and \<open>get_threat_entity\<close> format the first
  record only: two answers whose lists of edges start with the same edge give the same
  outcome, text or exception, whatever follows the first edge.  For two or more
  records, each with a node that has \<^verbatim>\<open>entity_type\<close> and \<^verbatim>\<open>id\<close> and whose string fields
  hold no line feed, \<open>search_knowledge_base\<close> formats every record as one line: the
  text has as many lines as there are records, the i-th line being the line of the
  i-th record.
\<close>

theorem first_record_only_search_every_record:
  "(answers remote GET_OBSERVABLE_QUERY (observable_vars val) data \<and>
    field data ''stixCyberObservables'' = Some found_o \<and>
    field found_o ''edges'' = Some (JList (first_o # rest_o)) \<and>
    answers remote' GET_OBSERVABLE_QUERY (observable_vars val) data' \<and>
    field data' ''stixCyberObservables'' = Some found_o' \<and>
    field found_o' ''edges'' = Some (JList (first_o # rest_o')) \<longrightarrow>
      get_observable_details remote val = get_observable_details remote' val)
 \<and> (answers remote GET_ENTITY_QUERY (entity_vars name) data \<and>
    field data ''stixDomainObjects'' = Some found_e \<and>
    field found_e ''edges'' = Some (JList (first_e # rest_e)) \<and>
    answers remote' GET_ENTITY_QUERY (entity_vars name) data' \<and>
    field data' ''stixDomainObjects'' = Some found_e' \<and>
    field found_e' ''edges'' = Some (JList (first_e # rest_e')) \<longrightarrow>
      get_threat_entity remote name = get_threat_entity remote' name)
 \<and> (answers remote SEARCH_QUERY (search_vars keyword limit) data \<and>
    field data ''globalSearch'' = Some found_s \<and>
    field found_s ''edges'' = Some (JList es) \<and> 2 \<le> length es \<and>
    list_all search_edge es \<and> list_all plain_edge es \<longrightarrow>
      (\<exists>out. search_knowledge_base remote keyword limit = Inr out
          \<and> length (split_lines out) = length es
          \<and> (\<forall>k<length es. search_line (es ! k) = Inr (split_lines out ! k))))"
proof (intro conjI impI; elim conjE)
  assume "answers remote GET_OBSERVABLE_QUERY (observable_vars val) data"
    and "field data ''stixCyberObservables'' = Some found_o"
    and "field found_o ''edges'' = Some (JList (first_o # rest_o))"
    and "answers remote' GET_OBSERVABLE_QUERY (observable_vars val) data'"
    and "field data' ''stixCyberObservables'' = Some found_o'"
    and "field found_o' ''edges'' = Some (JList (first_o # rest_o'))"
  then show "get_observable_details remote val = get_observable_details remote' val"
    by (simp add: get_observable_details_answers
          observable_text_first_edge [of data found_o first_o rest_o]
          observable_text_first_edge [of data' found_o' first_o rest_o'])
next
  assume "answers remote GET_ENTITY_QUERY (entity_vars name) data"
    and "field data ''stixDomainObjects'' = Some found_e"
    and "field found_e ''edges'' = Some (JList (first_e # rest_e))"
    and "answers remote' GET_ENTITY_QUERY (entity_vars name) data'"
    and "field data' ''stixDomainObjects'' = Some found_e'"
    and "field found_e' ''edges'' = Some (JList (first_e # rest_e'))"
  then show "get_threat_entity remote name = get_threat_entity remote' name"
    by (simp add: get_threat_entity_answers
          entity_text_first_edge [of data found_e first_e rest_e]
          entity_text_first_edge [of data' found_e' first_e rest_e'])
next
  assume a: "answers remote SEARCH_QUERY (search_vars keyword limit) data"
    and f: "field data ''globalSearch'' = Some found_s"
    and e: "field found_s ''edges'' = Some (JList es)"
    and n: "2 \<le> length es" and w: "list_all search_edge es" and p: "list_all plain_edge es"
  from n have ne: "es \<noteq> []"
    by auto
  show "\<exists>out. search_knowledge_base remote keyword limit = Inr out
          \<and> length (split_lines out) = length es
          \<and> (\<forall>k<length es. search_line (es ! k) = Inr (split_lines out ! k))"
    using a f e ne w p by (rule search_plain_lines)
qed

theorem first_record_only_search_every_record_witness:
  "get_observable_details
     (replying (JObj
        [(''stixCyberObservables'', JObj [(''edges'',
            JList [JObj [(''node'', JObj [(''entity_type'', JStr ''IPv4-Addr''),
                                          (''observable_value'', JStr ''8.8.8.8'')])],
                   JObj [(''node'', JObj [(''entity_type'', JStr ''IPv4-Addr''),
                                          (''observable_value'', JStr ''8.8.4.4'')])]])]),
         (''stixDomainObjects'', JObj [(''edges'',
            JList [JObj [(''node'', JObj [(''name'', JStr ''APT28''),
                                          (''entity_type'', JStr ''Intrusion-Set'')])],
                   JObj [(''node'', JObj [(''name'', JStr ''APT29''),
                                          (''entity_type'', JStr ''Intrusion-Set'')])]])]),
         (''globalSearch'', JObj [(''edges'',
            JList [JObj [(''node'', JObj [(''id'', JStr ''a1''), (''entity_type'', JStr ''Intrusion-Set''),
                                          (''name'', JStr ''APT28'')])],
                   JObj [(''node'', JObj [(''id'', JStr ''a2''), (''entity_type'', JStr ''Intrusion-Set''),
                                          (''name'', JStr ''APT29'')])]])])]))
     ''8.8.8.8''
   = get_observable_details
     (replying (JObj
        [(''stixCyberObservables'', JObj [(''edges'',
            JList [JObj [(''node'', JObj [(''entity_type'', JStr ''IPv4-Addr''),
                                          (''observable_value'', JStr ''8.8.8.8'')])]])]),
         (''stixDomainObjects'', JObj [(''edges'',
            JList [JObj [(''node'', JObj [(''name'', JStr ''APT28''),
                                          (''entity_type'', JStr ''Intrusion-Set'')])]])])]))
     ''8.8.8.8''
 \<and> get_threat_entity
     (replying (JObj
        [(''stixCyberObservables'', JObj [(''edges'',
            JList [JObj [(''node'', JObj [(''entity_type'', JStr ''IPv4-Addr''),
                                          (''observable_value'', JStr ''8.8.8.8'')])],
                   JObj [(''node'', JObj [(''entity_type'', JStr ''IPv4-Addr''),
                                          (''observable_value'', JStr ''8.8.4.4'')])]])]),
         (''stixDomainObjects'', JObj [(''edges'',
            JList [JObj [(''node'', JObj [(''name'', JStr ''APT28''),
                                          (''entity_type'', JStr ''Intrusion-Set'')])],
                   JObj [(''node'', JObj [(''name'', JStr ''APT29''),
                                          (''entity_type'', JStr ''Intrusion-Set'')])]])]),
         (''globalSearch'', JObj [(''edges'',
            JList [JObj [(''node'', JObj [(''id'', JStr ''a1''), (''entity_type'', JStr ''Intrusion-Set''),
                                          (''name'', JStr ''APT28'')])],
                   JObj [(''node'', JObj [(''id'', JStr ''a2''), (''entity_type'', JStr ''Intrusion-Set''),
                                          (''name'', JStr ''APT29'')])]])])]))
     ''APT28''
   = get_threat_entity
     (replying (JObj
        [(''stixCyberObservables'', JObj [(''edges'',
            JList [JObj [(''node'', JObj [(''entity_type'', JStr ''IPv4-Addr''),
                                          (''observable_value'', JStr ''8.8.8.8'')])]])]),
         (''stixDomainObjects'', JObj [(''edges'',
            JList [JObj [(''node'', JObj [(''name'', JStr ''APT28''),
                                          (''entity_type'', JStr ''Intrusion-Set'')])]])])]))
     ''APT28''
 \<and> (\<exists>out. search_knowledge_base
     (replying (JObj
        [(''stixCyberObservables'', JObj [(''edges'',
            JList [JObj [(''node'', JObj [(''entity_type'', JStr ''IPv4-Addr''),
                                          (''observable_value'', JStr ''8.8.8.8'')])],
                   JObj [(''node'', JObj [(''entity_type'', JStr ''IPv4-Addr''),
                                          (''observable_value'', JStr ''8.8.4.4'')])]])]),
         (''stixDomainObjects'', JObj [(''edges'',
            JList [JObj [(''node'', JObj [(''name'', JStr ''APT28''),
                                          (''entity_type'', JStr ''Intrusion-Set'')])],
                   JObj [(''node'', JObj [(''name'', JStr ''APT29''),
                                          (''entity_type'', JStr ''Intrusion-Set'')])]])]),
         (''globalSearch'', JObj [(''edges'',
            JList [JObj [(''node'', JObj [(''id'', JStr ''a1''), (''entity_type'', JStr ''Intrusion-Set''),
                                          (''name'', JStr ''APT28'')])],
                   JObj [(''node'', JObj [(''id'', JStr ''a2''), (''entity_type'', JStr ''Intrusion-Set''),
                                          (''name'', JStr ''APT29'')])]])])]))
     ''apt'' 10
       = Inr out
     \<and> length (split_lines out) = 2
     \<and> split_lines out ! 0 = ''- [Intrusion-Set] APT28 (ID: a1): Sin descripci'' @ [o_acute] @ ''n''
     \<and> split_lines out ! 1 = ''- [Intrusion-Set] APT29 (ID: a2): Sin descripci'' @ [o_acute] @ ''n'')"
proof -
  let ?o1 = "JObj [(''node'', JObj [(''entity_type'', JStr ''IPv4-Addr''),
                                    (''observable_value'', JStr ''8.8.8.8'')])]"
  let ?o2 = "JObj [(''node'', JObj [(''entity_type'', JStr ''IPv4-Addr''),
                                    (''observable_value'', JStr ''8.8.4.4'')])]"
  let ?n1 = "JObj [(''node'', JObj [(''name'', JStr ''APT28''),
                                    (''entity_type'', JStr ''Intrusion-Set'')])]"
  let ?n2 = "JObj [(''node'', JObj [(''name'', JStr ''APT29''),
                                    (''entity_type'', JStr ''Intrusion-Set'')])]"
  let ?s1 = "JObj [(''node'', JObj [(''id'', JStr ''a1''), (''entity_type'', JStr ''Intrusion-Set''),
                                    (''name'', JStr ''APT28'')])]"
  let ?s2 = "JObj [(''node'', JObj [(''id'', JStr ''a2''), (''entity_type'', JStr ''Intrusion-Set''),
                                    (''name'', JStr ''APT29'')])]"
  let ?D = "JObj [(''stixCyberObservables'', JObj [(''edges'', JList [?o1, ?o2])]),
                  (''stixDomainObjects'', JObj [(''edges'', JList [?n1, ?n2])]),
                  (''globalSearch'', JObj [(''edges'', JList [?s1, ?s2])])]"
  let ?D' = "JObj [(''stixCyberObservables'', JObj [(''edges'', JList [?o1])]),
                   (''stixDomainObjects'', JObj [(''edges'', JList [?n1])])]"
  note all = first_record_only_search_every_record
    [where remote = "replying ?D" and remote' = "replying ?D'" and data = ?D and data' = ?D'
       and val = "''8.8.8.8''" and name = "''APT28''" and keyword = "''apt''" and limit = 10
       and found_o = "JObj [(''edges'', JList [?o1, ?o2])]" and first_o = ?o1 and rest_o = "[?o2]"
       and found_o' = "JObj [(''edges'', JList [?o1])]" and rest_o' = "[]"
       and found_e = "JObj [(''edges'', JList [?n1, ?n2])]" and first_e = ?n1 and rest_e = "[?n2]"
       and found_e' = "JObj [(''edges'', JList [?n1])]" and rest_e' = "[]"
       and found_s = "JObj [(''edges'', JList [?s1, ?s2])]" and es = "[?s1, ?s2]"]
  from all have observable:
    "get_observable_details (replying ?D) ''8.8.8.8'' = get_observable_details (replying ?D') ''8.8.8.8''"
    by (elim conjE) (simp add: answers_replying)
  from all have entity:
    "get_threat_entity (replying ?D) ''APT28'' = get_threat_entity (replying ?D') ''APT28''"
    by (elim conjE) (simp add: answers_replying)
  from all have "\<exists>out. search_knowledge_base (replying ?D) ''apt'' 10 = Inr out
          \<and> length (split_lines out) = length [?s1, ?s2]
          \<and> (\<forall>k<length [?s1, ?s2]. search_line ([?s1, ?s2] ! k) = Inr (split_lines out ! k))"
    by (elim conjE)
       (simp add: answers_replying search_edge_def plain_edge_def plain_record_def
          node_field_def newline_def)
  then obtain out where returned: "search_knowledge_base (replying ?D) ''apt'' 10 = Inr out"
    and len: "length (split_lines out) = length [?s1, ?s2]"
    and nth: "\<forall>k<length [?s1, ?s2]. search_line ([?s1, ?s2] ! k) = Inr (split_lines out ! k)"
    by (elim exE conjE)
  from nth [rule_format, of 0]
  have l0: "split_lines out ! 0 = ''- [Intrusion-Set] APT28 (ID: a1): Sin descripci'' @ [o_acute] @ ''n''"
    by (simp add: search_line_def py_str_def py_or_def)
  from nth [rule_format, of 1]
  have l1: "split_lines out ! 1 = ''- [Intrusion-Set] APT29 (ID: a2): Sin descripci'' @ [o_acute] @ ''n''"
    by (simp add: search_line_def py_str_def py_or_def)
  from returned len l0 l1
  have "\<exists>out. search_knowledge_base (replying ?D) ''apt'' 10 = Inr out
     \<and> length (split_lines out) = 2
     \<and> split_lines out ! 0 = ''- [Intrusion-Set] APT28 (ID: a1): Sin descripci'' @ [o_acute] @ ''n''
     \<and> split_lines out ! 1 = ''- [Intrusion-Set] APT29 (ID: a2): Sin descripci'' @ [o_acute] @ ''n''"
    by (intro exI [of _ out]) simp
  with observable entity show ?thesis
    by (intro conjI)
qed

text \<open>
  C2 as it is written fails: it promises that no missing field makes the formatting
  fail, the \<^verbatim>\<open>name\<close> of an indicator edge and the \<^verbatim>\<open>name\<close> or \<^verbatim>\<open>published\<close> of a report
  edge included.  The tool reads these three by subscript, as it reads \<^verbatim>\<open>entity_type\<close>,
  \<^verbatim>\<open>id\<close>, \<^verbatim>\<open>observable_value\<close> and the \<^verbatim>\<open>name\<close> of an entity, and a subscript on a missing
  key raises \<^verbatim>\<open>KeyError\<close>.
\<close>

theorem missing_subscript_field_raises_counterexample:
  "get_observable_details
     (replying (JObj [(''stixCyberObservables'', JObj [(''edges'', JList [JObj [(''node'',
        JObj [(''entity_type'', JStr ''IPv4-Addr''), (''observable_value'', JStr ''8.8.8.8''),
              (''indicators'', JObj [(''edges'',
                 JList [JObj [(''node'', JObj [(''pattern'', JStr ''[ipv4-addr:value]'')])]])])])]])])]))
     ''8.8.8.8''
     = Inl (KeyError (JStr ''name''))
 \<and> get_observable_details
     (replying (JObj [(''stixCyberObservables'', JObj [(''edges'', JList [JObj [(''node'',
        JObj [(''entity_type'', JStr ''IPv4-Addr''), (''observable_value'', JStr ''8.8.8.8''),
              (''reports'', JObj [(''edges'',
                 JList [JObj [(''node'', JObj [(''name'', JStr ''Resolvers'')])]])])])]])])]))
     ''8.8.8.8''
     = Inl (KeyError (JStr ''published''))"
  by (simp add: get_observable_details_replying observable_text_def observable_output_def)

text \<open>
  The subscripts are not the only reads that can fail.  A connection that is present
  must be a dict: with \<^verbatim>\<open>indicators\<close> bound to \<^verbatim>\<open>null\<close>, \<^verbatim>\<open>node.get("indicators", {})\<close> is
  \<^verbatim>\<open>None\<close> and the next \<^verbatim>\<open>.get\<close> raises \<^verbatim>\<open>AttributeError\<close>.  So the statement below asks for
  the shape of the connections as well.
\<close>

lemma null_connection_raises:
  "get_observable_details
     (replying (JObj [(''stixCyberObservables'', JObj [(''edges'', JList [JObj [(''node'',
        JObj [(''entity_type'', JStr ''IPv4-Addr''), (''observable_value'', JStr ''8.8.8.8''),
              (''indicators'', JNull)])]])])]))
     ''8.8.8.8''
     = Inl (AttributeError (quoted ''NoneType'' @ '' object has no attribute '' @ quoted ''get''))"
  by (simp add: get_observable_details_replying observable_text_def observable_output_def)

text \<open>
  C2, amended.  A field is absent when its key is missing from the record (a key bound
  to \<^verbatim>\<open>null\<close> is present).  Take a record that has the fields its tool reads by
  subscript and whose connections, when present, have the shape the tool walks through:
  a search edge with a node that has \<^verbatim>\<open>entity_type\<close> and \<^verbatim>\<open>id\<close>; an observable with
  \<^verbatim>\<open>entity_type\<close> and \<^verbatim>\<open>observable_value\<close>, whose \<^verbatim>\<open>indicators\<close> and \<^verbatim>\<open>reports\<close>, each
  when present, are a dict whose \<^verbatim>\<open>edges\<close>, when present, is a list of edges, every
  indicator edge with a node whose \<^verbatim>\<open>name\<close> is a string and every report edge with a
  node that has \<^verbatim>\<open>name\<close> and \<^verbatim>\<open>published\<close>; an entity with \<^verbatim>\<open>name\<close> and \<^verbatim>\<open>entity_type\<close>.
  On such a record each tool returns a text, and in it every absent optional field has
  its fixed default: \<^verbatim>\<open>Desconocido\<close> when \<^verbatim>\<open>name\<close> and \<^verbatim>\<open>observable_value\<close> are both
  absent and the sentence \<^verbatim>\<open>Sin descripcion\<close> (with its accent) when both descriptions
  are, in a search; \<^verbatim>\<open>N/A\<close> for the score and the description and \<^verbatim>\<open>Ninguno\<close> for the
  indicators and the reports of an observable; \<^verbatim>\<open>N/A\<close> for the description and the
  creation date of an entity, \<^verbatim>\<open>[]\<close> for the types and the goals of a \<^verbatim>\<open>Threat-Actor\<close>,
  \<^verbatim>\<open>False\<close> for the family flag of a \<^verbatim>\<open>Malware\<close>.
\<close>

theorem absent_optional_fields_get_defaults:
  "(answers remote SEARCH_QUERY (search_vars keyword limit) data \<and>
    field data ''globalSearch'' = Some found \<and> field found ''edges'' = Some (JList es) \<and>
    es \<noteq> [] \<and> list_all search_edge es \<longrightarrow>
      (\<exists>ls. search_knowledge_base remote keyword limit = Inr (join [newline] ls)
         \<and> length ls = length es
         \<and> (\<forall>k<length es. \<exists>t i name desc.
               ls ! k = ''- ['' @ t @ ''] '' @ name @ '' (ID: '' @ i @ ''): '' @ desc
             \<and> (node_field (es ! k) ''name'' = None \<and> node_field (es ! k) ''observable_value'' = None
                  \<longrightarrow> name = ''Desconocido'')
             \<and> (node_field (es ! k) ''description'' = None
                  \<and> node_field (es ! k) ''x_opencti_description'' = None
                  \<longrightarrow> desc = ''Sin descripci'' @ [o_acute] @ ''n''))))
 \<and> (answers remote GET_OBSERVABLE_QUERY (observable_vars val) data \<and>
    first_record data ''stixCyberObservables'' = Some node_o \<and> observable_record node_o \<longrightarrow>
      (\<exists>l1 l2 l3 l4 l5 l6.
           get_observable_details remote val = Inr (join [newline] [l1, l2, l3, l4, l5, l6])
         \<and> (field node_o ''x_opencti_score'' = None \<longrightarrow> l3 = ''Score: N/A'')
         \<and> (field node_o ''x_opencti_description'' = None
              \<longrightarrow> l4 = ''Descripci'' @ [o_acute] @ ''n: N/A'')
         \<and> (field node_o ''indicators'' = None \<longrightarrow> l5 = ''Indicadores asociados: Ninguno'')
         \<and> (field node_o ''reports'' = None \<longrightarrow> l6 = ''Mencionado en reportes: Ninguno'')))
 \<and> (answers remote GET_ENTITY_QUERY (entity_vars name) data \<and>
    first_record data ''stixDomainObjects'' = Some node_e \<and>
    field node_e ''name'' = Some n \<and> field node_e ''entity_type'' = Some t \<longrightarrow>
      (\<exists>output.
           get_threat_entity remote name = Inr (join [newline] output) \<and> 4 \<le> length output
         \<and> (field node_e ''description'' = None
              \<longrightarrow> output ! 2 = ''Descripci'' @ [o_acute] @ ''n: N/A'')
         \<and> (field node_e ''created'' = None \<longrightarrow> output ! 3 = ''Creado: N/A'')
         \<and> (t = JStr ''Threat-Actor'' \<and> field node_e ''threat_actor_types'' = None
              \<longrightarrow> output ! 4 = ''Tipos: []'')
         \<and> (t = JStr ''Threat-Actor'' \<and> field node_e ''goals'' = None
              \<longrightarrow> output ! 5 = ''Objetivos: []'')
         \<and> (t = JStr ''Malware'' \<and> field node_e ''is_family'' = None
              \<longrightarrow> output ! 4 = ''Familia de malware: False'')))"
  by (intro conjI impI; elim conjE) (rule search_defaults observable_defaults entity_defaults; assumption)+

theorem absent_optional_fields_get_defaults_witness:
  "(\<exists>ls. search_knowledge_base
       (replying (JObj [(''globalSearch'', JObj [(''edges'',
            JList [JObj [(''node'', JObj [(''id'', JStr ''x1''), (''entity_type'', JStr ''Tool'')])]])]),
         (''stixCyberObservables'', JObj [(''edges'',
            JList [JObj [(''node'', JObj [(''entity_type'', JStr ''IPv4-Addr''),
                                          (''observable_value'', JStr ''8.8.8.8'')])]])]),
         (''stixDomainObjects'', JObj [(''edges'',
            JList [JObj [(''node'', JObj [(''name'', JStr ''APT28''),
                                          (''entity_type'', JStr ''Threat-Actor'')])]])])]))
       ''x'' 10 = Inr (join [newline] ls)
     \<and> length ls = 1
     \<and> (\<exists>t i. ls ! 0 = ''- ['' @ t @ ''] Desconocido (ID: '' @ i @ ''): Sin descripci'' @ [o_acute] @ ''n''))
 \<and> (\<exists>l1 l2. get_observable_details
       (replying (JObj [(''globalSearch'', JObj [(''edges'',
            JList [JObj [(''node'', JObj [(''id'', JStr ''x1''), (''entity_type'', JStr ''Tool'')])]])]),
         (''stixCyberObservables'', JObj [(''edges'',
            JList [JObj [(''node'', JObj [(''entity_type'', JStr ''IPv4-Addr''),
                                          (''observable_value'', JStr ''8.8.8.8'')])]])]),
         (''stixDomainObjects'', JObj [(''edges'',
            JList [JObj [(''node'', JObj [(''name'', JStr ''APT28''),
                                          (''entity_type'', JStr ''Threat-Actor'')])]])])]))
       ''8.8.8.8''
     = Inr (join [newline]
         [l1, l2, ''Score: N/A'', ''Descripci'' @ [o_acute] @ ''n: N/A'',
          ''Indicadores asociados: Ninguno'', ''Mencionado en reportes: Ninguno'']))
 \<and> (\<exists>output. get_threat_entity
       (replying (JObj [(''globalSearch'', JObj [(''edges'',
            JList [JObj [(''node'', JObj [(''id'', JStr ''x1''), (''entity_type'', JStr ''Tool'')])]])]),
         (''stixCyberObservables'', JObj [(''edges'',
            JList [JObj [(''node'', JObj [(''entity_type'', JStr ''IPv4-Addr''),
                                          (''observable_value'', JStr ''8.8.8.8'')])]])]),
         (''stixDomainObjects'', JObj [(''edges'',
            JList [JObj [(''node'', JObj [(''name'', JStr ''APT28''),
                                          (''entity_type'', JStr ''Threat-Actor'')])]])])]))
       ''APT28'' = Inr (join [newline] output)
     \<and> output ! 2 = ''Descripci'' @ [o_acute] @ ''n: N/A'' \<and> output ! 3 = ''Creado: N/A''
     \<and> output ! 4 = ''Tipos: []'' \<and> output ! 5 = ''Objetivos: []'')
 \<and> (\<exists>output. get_threat_entity
       (replying (JObj [(''stixDomainObjects'', JObj [(''edges'',
            JList [JObj [(''node'', JObj [(''name'', JStr ''Emotet''),
                                          (''entity_type'', JStr ''Malware'')])]])])]))
       ''Emotet'' = Inr (join [newline] output)
     \<and> output ! 4 = ''Familia de malware: False'')"
proof -
  let ?s = "JObj [(''node'', JObj [(''id'', JStr ''x1''), (''entity_type'', JStr ''Tool'')])]"
  let ?o = "JObj [(''entity_type'', JStr ''IPv4-Addr''), (''observable_value'', JStr ''8.8.8.8'')]"
  let ?a = "JObj [(''name'', JStr ''APT28''), (''entity_type'', JStr ''Threat-Actor'')]"
  let ?m = "JObj [(''name'', JStr ''Emotet''), (''entity_type'', JStr ''Malware'')]"
  let ?D = "JObj [(''globalSearch'', JObj [(''edges'', JList [?s])]),
                  (''stixCyberObservables'', JObj [(''edges'', JList [JObj [(''node'', ?o)]])]),
                  (''stixDomainObjects'', JObj [(''edges'', JList [JObj [(''node'', ?a)]])])]"
  let ?M = "JObj [(''stixDomainObjects'', JObj [(''edges'', JList [JObj [(''node'', ?m)]])])]"
  note actor = absent_optional_fields_get_defaults
    [where remote = "replying ?D" and data = ?D and keyword = "''x''" and limit = 10
       and val = "''8.8.8.8''" and name = "''APT28''"
       and found = "JObj [(''edges'', JList [?s])]" and es = "[?s]"
       and node_o = ?o and node_e = ?a and n = "JStr ''APT28''" and t = "JStr ''Threat-Actor''"]
  note malware = absent_optional_fields_get_defaults
    [where remote = "replying ?M" and data = ?M and keyword = "''x''" and limit = 10
       and val = "''x''" and name = "''Emotet''" and found = JNull and es = "[]"
       and node_o = JNull and node_e = ?m and n = "JStr ''Emotet''" and t = "JStr ''Malware''"]
  from actor have "\<exists>ls. search_knowledge_base (replying ?D) ''x'' 10 = Inr (join [newline] ls)
     \<and> length ls = 1
     \<and> (\<exists>t i. ls ! 0 = ''- ['' @ t @ ''] Desconocido (ID: '' @ i @ ''): Sin descripci'' @ [o_acute] @ ''n'')"
    by (elim conjE) (simp add: answers_replying search_edge_def node_field_def)
  moreover from actor have "\<exists>l1 l2. get_observable_details (replying ?D) ''8.8.8.8''
     = Inr (join [newline]
         [l1, l2, ''Score: N/A'', ''Descripci'' @ [o_acute] @ ''n: N/A'',
          ''Indicadores asociados: Ninguno'', ''Mencionado en reportes: Ninguno''])"
    by (elim conjE) (simp add: answers_replying first_record_def observable_record_def connection_def)
  moreover from actor have "\<exists>output. get_threat_entity (replying ?D) ''APT28'' = Inr (join [newline] output)
     \<and> output ! 2 = ''Descripci'' @ [o_acute] @ ''n: N/A'' \<and> output ! 3 = ''Creado: N/A''
     \<and> output ! 4 = ''Tipos: []'' \<and> output ! 5 = ''Objetivos: []''"
    by (elim conjE) (auto simp add: answers_replying first_record_def)
  moreover from malware have "\<exists>output. get_threat_entity (replying ?M) ''Emotet'' = Inr (join [newline] output)
     \<and> output ! 4 = ''Familia de malware: False''"
    by (elim conjE) (auto simp add: answers_replying first_record_def)
  ultimately show ?thesis
    by (intro conjI)
qed

end
